theory Spec2Isabelle
  imports Complex_Main "HOL-Library.Log_Nat"
begin

section \<open>Python values\<close>

text \<open>
  The tools of \<^verbatim>\<open>orbit_tools.py\<close> exchange untyped Python values (\<^verbatim>\<open>Any\<close>, \<^verbatim>\<open>Dict\<close>).
  They are embedded as a small datatype. A dictionary is an association list in insertion
  order; its keys are values themselves (a status of \<^verbatim>\<open>None\<close> can be a key). A float
  is the rational number it denotes.
\<close>

datatype pyval =
    PNone
  | PBool bool
  | PInt int
  | PFloat rat
  | PStr string
  | PList "pyval list"
  | PDict "(pyval \<times> pyval) list"

text \<open>Python truthiness, as \<^verbatim>\<open>not x\<close> and \<^verbatim>\<open>x or y\<close> use it.\<close>

fun truthy :: "pyval \<Rightarrow> bool" where
  "truthy PNone = False"
| "truthy (PBool b) = b"
| "truthy (PInt i) = (i \<noteq> 0)"
| "truthy (PFloat r) = (r \<noteq> 0)"
| "truthy (PStr s) = (s \<noteq> [])"
| "truthy (PList xs) = (xs \<noteq> [])"
| "truthy (PDict kvs) = (kvs \<noteq> [])"

section \<open>Floating point\<close>

text \<open>
  A Python float is an IEEE 754 double. It is embedded as the rational number it denotes,
  and each operation rounds its exact result to the nearest number with 53 significant
  bits, a tie to the one with an even significand. The range of the exponent is not
  bounded here: infinities, NaN and subnormal numbers do not occur in the values this
  program computes.
\<close>

text \<open>To the nearest integer, a tie to the even one.\<close>

definition round_half_even :: "rat \<Rightarrow> int" where
  "round_half_even x =
     (let f = \<lfloor>x\<rfloor>; d = x - of_int f
      in if d < 1 / 2 then f else if 1 / 2 < d then f + 1 else if even f then f else f + 1)"

text \<open>The exponent \<open>n\<close> with \<open>2\<^sup>n \<le> x < 2\<^sup>n\<^sup>+\<^sup>1\<close>, for \<open>x > 0\<close>.\<close>

definition floor_log2 :: "rat \<Rightarrow> int" where
  "floor_log2 x =
     (let d = bitlen (fst (quotient_of x)) - bitlen (snd (quotient_of x))
      in if 2 powi d \<le> x then d else d - 1)"

text \<open>The double nearest to a rational.\<close>

definition to_double :: "rat \<Rightarrow> rat" where
  "to_double x =
     (if x = 0 then 0
      else (let e = floor_log2 \<bar>x\<bar> - 52
            in of_int (round_half_even (x / 2 powi e)) * 2 powi e))"

text \<open>
  \<^verbatim>\<open>a / b\<close> on two integers (correctly rounded), and \<^verbatim>\<open>x * n\<close> and \<^verbatim>\<open>x / n\<close> on a float and
  an integer, which is converted to a float first. The callers guard the divisions against
  a zero divisor.
\<close>

definition int_truediv :: "int \<Rightarrow> int \<Rightarrow> rat" where
  "int_truediv a b = to_double (of_int a / of_int b)"

definition float_mul_int :: "rat \<Rightarrow> int \<Rightarrow> rat" where
  "float_mul_int x n = to_double (x * to_double (of_int n))"

definition float_div_int :: "rat \<Rightarrow> int \<Rightarrow> rat" where
  "float_div_int x n = to_double (x / to_double (of_int n))"

text \<open>
  \<^verbatim>\<open>round(x, 2)\<close> on a float: the exact value of \<open>x\<close> is rounded to two decimal places, a
  tie to the even digit, and the double nearest to that decimal number is returned.
\<close>

definition py_round2 :: "rat \<Rightarrow> rat" where
  "py_round2 x = to_double (of_int (round_half_even (x * 100)) / 100)"

section \<open>Text and the result envelope\<close>

text \<open>Decimal rendering of integers, as an f-string does it.\<close>

definition digit_char :: "nat \<Rightarrow> char" where
  "digit_char d = ''0123456789'' ! (d mod 10)"

fun show_nat :: "nat \<Rightarrow> string" where
  "show_nat n = (if n < 10 then [digit_char n] else show_nat (n div 10) @ [digit_char (n mod 10)])"

declare show_nat.simps [simp del]

definition show_int :: "int \<Rightarrow> string" where
  "show_int i = (if i < 0 then CHR ''-'' # show_nat (nat (- i)) else show_nat (nat i))"

text \<open>
  \<^verbatim>\<open>class ToolResult\<close>: \<^verbatim>\<open>success\<close>, \<^verbatim>\<open>data\<close>, \<^verbatim>\<open>error\<close>, \<^verbatim>\<open>metadata\<close>. The constructor
  defaults are \<^verbatim>\<open>data=None\<close>, \<^verbatim>\<open>error=None\<close> and \<^verbatim>\<open>metadata or {}\<close>. The \<^verbatim>\<open>timestamp\<close>
  field is a reading of the wall clock at construction; it is outside the embedding, and
  so are the measured \<^verbatim>\<open>duration_seconds\<close> entries of the metadata.
\<close>

record tool_result =
  success :: bool
  data :: pyval
  error :: "string option"
  metadata :: "(string \<times> pyval) list"

definition ToolResult :: "bool \<Rightarrow> pyval \<Rightarrow> string option \<Rightarrow> (string \<times> pyval) list \<Rightarrow> tool_result" where
  "ToolResult s d e m = \<lparr>success = s, data = d, error = e, metadata = m\<rparr>"

text \<open>A dictionary whose keys are string literals of the source.\<close>

definition dict_of :: "(string \<times> pyval) list \<Rightarrow> pyval" where
  "dict_of kvs = PDict (map (\<lambda>(k, v). (PStr k, v)) kvs)"

definition opt_str :: "string option \<Rightarrow> pyval" where
  "opt_str e = (case e of None \<Rightarrow> PNone | Some s \<Rightarrow> PStr s)"

text \<open>\<^verbatim>\<open>ToolResult.to_dict\<close>.\<close>

definition to_dict :: "tool_result \<Rightarrow> pyval" where
  "to_dict r = dict_of [(''success'', PBool (success r)), (''data'', data r),
                        (''error'', opt_str (error r)), (''metadata'', dict_of (metadata r))]"

text \<open>\<^verbatim>\<open>create_tool_result\<close> of \<^verbatim>\<open>orbit_mcp_server.py\<close>: the same envelope as a dictionary.\<close>

definition create_tool_result :: "bool \<Rightarrow> pyval \<Rightarrow> string option \<Rightarrow> (string \<times> pyval) list \<Rightarrow> tool_result" where
  "create_tool_result s d e m = \<lparr>success = s, data = d, error = e, metadata = m\<rparr>"

section \<open>The database tool: retrying executor\<close>

text \<open>
  The HTTP client is the environment. One call of \<^verbatim>\<open>client.post\<close> either raises (with
  the text \<^verbatim>\<open>str\<close> gives the exception) or returns a response with a status code, a body
  text and the outcome of \<^verbatim>\<open>response.json()\<close> (which may raise as well). A backend gives
  the response to the \<open>n\<close>-th post of a run, which may depend on the query posted.
\<close>

datatype response =
    PostRaises string
  | Response int string "string + pyval"

type_synonym backend = "nat \<Rightarrow> string option \<Rightarrow> response"

text \<open>
  What a run does to its environment, in order: the entry into \<^verbatim>\<open>_execute\<close> for a query
  and operation type, each post, and each \<^verbatim>\<open>asyncio.sleep\<close> with its number of seconds.
\<close>

datatype event =
    Invoke "string option" string
  | Post "string option" "pyval list"
  | Sleep nat

fun is_post :: "event \<Rightarrow> bool" where
  "is_post (Post q ps) = True"
| "is_post e = False"

definition posts :: "event list \<Rightarrow> nat" where
  "posts tr = length (filter is_post tr)"

text \<open>\<^verbatim>\<open>query[:100] + "..." if len(query) > 100 else query\<close>\<close>

definition short_query :: "string \<Rightarrow> string" where
  "short_query q = (if length q > 100 then take 100 q @ ''...'' else q)"

text \<open>\<^verbatim>\<open>len(data) if isinstance(data, list) else 1\<close>\<close>

fun row_count :: "pyval \<Rightarrow> int" where
  "row_count (PList xs) = int (length xs)"
| "row_count v = 1"

definition none_len_error :: string where
  "none_len_error = ''object of type 'NoneType' has no len()''"

text \<open>
  The body of the \<^verbatim>\<open>try\<close> block of \<^verbatim>\<open>DatabaseTool._execute\<close> for one attempt: \<open>Inl\<close> is the
  text of the exception the \<^verbatim>\<open>except\<close> clause catches, \<open>Inr\<close> the envelope returned. The
  query is \<open>None\<close> when the caller passed none; then \<^verbatim>\<open>len(query)\<close> raises a TypeError
  while the success envelope is built.
\<close>

definition try_once :: "response \<Rightarrow> string option \<Rightarrow> string \<Rightarrow> nat \<Rightarrow> string + tool_result" where
  "try_once resp query operation_type attempts =
     (case resp of
        PostRaises m \<Rightarrow> Inl m
      | Response status_code body js \<Rightarrow>
          if status_code \<noteq> 200
          then Inl (''Database error: '' @ show_int status_code @ '' - '' @ body)
          else (case js of
                  Inl m \<Rightarrow> Inl m
                | Inr d \<Rightarrow>
                    (case query of
                       None \<Rightarrow> Inl none_len_error
                     | Some q \<Rightarrow>
                         Inr (ToolResult True d None
                                [(''query'', PStr (short_query q)),
                                 (''row_count'', PInt (row_count d)),
                                 (''attempts'', PInt (int attempts + 1)),
                                 (''operation_type'', PStr operation_type)]))))"

text \<open>
  The envelope after the loop. \<^verbatim>\<open>str(last_error)\<close> is \<^verbatim>\<open>"None"\<close> when no attempt was
  made. With no query the metadata cannot be built and the TypeError leaves \<^verbatim>\<open>_execute\<close>
  (\<open>Inl\<close>).
\<close>

definition give_up :: "string option \<Rightarrow> string \<Rightarrow> nat \<Rightarrow> string option \<Rightarrow> string + tool_result" where
  "give_up query operation_type attempts last_error =
     (case query of
        None \<Rightarrow> Inl none_len_error
      | Some q \<Rightarrow>
          Inr (ToolResult False PNone
                 (Some (case last_error of None \<Rightarrow> ''None'' | Some m \<Rightarrow> m))
                 [(''query'', PStr (short_query q)),
                  (''attempts'', PInt (int attempts)),
                  (''operation_type'', PStr operation_type)]))"

text \<open>
  The \<^verbatim>\<open>while attempts < (self.max_retries if retry_on_error else 1)\<close> loop. The state of
  the loop is \<open>attempts\<close>, \<open>last_error\<close> and the trace.
\<close>

function execute_loop ::
  "backend \<Rightarrow> int \<Rightarrow> string option \<Rightarrow> pyval list \<Rightarrow> bool \<Rightarrow> string \<Rightarrow>
   nat \<Rightarrow> string option \<Rightarrow> event list \<Rightarrow> (string + tool_result) \<times> event list" where
  "execute_loop be max_retries query params retry_on_error operation_type attempts last_error tr =
     (if int attempts < (if retry_on_error then max_retries else 1) then
        (case try_once (be (posts tr) query) query operation_type attempts of
           Inr r \<Rightarrow> (Inr r, tr @ [Post query params])
         | Inl m \<Rightarrow>
             execute_loop be max_retries query params retry_on_error operation_type
               (attempts + 1) (Some m)
               (tr @ [Post query params] @
                  (if int (attempts + 1) < max_retries \<and> retry_on_error
                   then [Sleep (2 ^ (attempts + 1))] else [])))
      else (give_up query operation_type attempts last_error, tr))"
  by pat_completeness auto
termination
  by (relation "measure (\<lambda>(be, mr, q, ps, retry, ot, attempts, le, tr).
        nat ((if retry then mr else 1) - int attempts))") auto

declare execute_loop.simps [simp del]

text \<open>\<^verbatim>\<open>DatabaseTool._execute(query, params, retry_on_error, operation_type)\<close>\<close>

definition execute ::
  "backend \<Rightarrow> int \<Rightarrow> string option \<Rightarrow> pyval list \<Rightarrow> bool \<Rightarrow> string \<Rightarrow>
   event list \<Rightarrow> (string + tool_result) \<times> event list" where
  "execute be max_retries query params retry_on_error operation_type tr =
     execute_loop be max_retries query params retry_on_error operation_type 0 None
       (tr @ [Invoke query operation_type])"

text \<open>
  The text of the exception an attempt with a string query ends in, if it fails: the post
  raised, the status code is not 200, or \<^verbatim>\<open>response.json()\<close> raised.
\<close>

fun attempt_error :: "response \<Rightarrow> string option" where
  "attempt_error (PostRaises m) = Some m"
| "attempt_error (Response status_code body js) =
     (if status_code \<noteq> 200
      then Some (''Database error: '' @ show_int status_code @ '' - '' @ body)
      else (case js of Inl m \<Rightarrow> Some m | Inr d \<Rightarrow> None))"

section \<open>The database tool: transactions\<close>

text \<open>
  One element of \<^verbatim>\<open>queries\<close>: a dictionary read through \<^verbatim>\<open>get('sql')\<close>, \<^verbatim>\<open>get('query')\<close>
  and \<^verbatim>\<open>get('params', [])\<close>. An absent key is \<open>None\<close>, absent parameters are \<open>[]\<close>.
\<close>

record query_data =
  sql :: "string option"
  query :: "string option"
  params :: "pyval list"

text \<open>\<^verbatim>\<open>query_data.get('sql') or query_data.get('query')\<close>\<close>

definition resolve_query :: "query_data \<Rightarrow> string option" where
  "resolve_query qd =
     (case sql qd of
        Some s \<Rightarrow> if s \<noteq> [] then Some s else query qd
      | None \<Rightarrow> query qd)"

text \<open>\<^verbatim>\<open>f"{result.error}"\<close>\<close>

definition error_text :: "tool_result \<Rightarrow> string" where
  "error_text r = (case error r of None \<Rightarrow> ''None'' | Some e \<Rightarrow> e)"

text \<open>\<^verbatim>\<open>await self._execute("ROLLBACK", operation_type="transaction_rollback")\<close>\<close>

definition rollback :: "backend \<Rightarrow> int \<Rightarrow> event list \<Rightarrow> (string + tool_result) \<times> event list" where
  "rollback be max_retries tr =
     execute be max_retries (Some ''ROLLBACK'') [] True ''transaction_rollback'' tr"

text \<open>
  The \<^verbatim>\<open>for i, query_data in enumerate(queries)\<close> loop of \<^verbatim>\<open>execute_transaction\<close>.
  \<open>Inl\<close> is the text of the exception that leaves the loop: the one raised after the
  rollback of a failed step, or one that left \<^verbatim>\<open>_execute\<close>.
\<close>

fun run_queries ::
  "backend \<Rightarrow> int \<Rightarrow> nat \<Rightarrow> query_data list \<Rightarrow> pyval list \<Rightarrow> event list \<Rightarrow>
   (string + pyval list) \<times> event list" where
  "run_queries be max_retries i [] results tr = (Inr results, tr)"
| "run_queries be max_retries i (qd # qds) results tr =
     (case execute be max_retries (resolve_query qd) (params qd) False ''query'' tr of
        (Inl exn, tr1) \<Rightarrow> (Inl exn, tr1)
      | (Inr result, tr1) \<Rightarrow>
          if \<not> success result then
            (Inl (''Query '' @ show_nat (i + 1) @ '' failed: '' @ error_text result),
             snd (rollback be max_retries tr1))
          else run_queries be max_retries (i + 1) qds (results @ [to_dict result]) tr1)"

text \<open>
  \<^verbatim>\<open>DatabaseTool.execute_transaction(queries)\<close>. The transaction id is a fresh UUID, given
  here as a parameter. The results of the BEGIN and COMMIT calls are not looked at; the
  \<^verbatim>\<open>except\<close> clause calls rollback again and returns the failure envelope.
\<close>

definition execute_transaction ::
  "backend \<Rightarrow> int \<Rightarrow> string \<Rightarrow> query_data list \<Rightarrow> event list \<Rightarrow> tool_result \<times> event list" where
  "execute_transaction be max_retries transaction_id queries tr =
     (let tr1 = snd (execute be max_retries (Some ''BEGIN'') [] True ''transaction_begin'' tr) in
      case run_queries be max_retries 0 queries [] tr1 of
        (Inr results, tr2) \<Rightarrow>
          (ToolResult True (PList results) None
             [(''transaction_id'', PStr transaction_id),
              (''queries_executed'', PInt (int (length queries)))],
           snd (execute be max_retries (Some ''COMMIT'') [] True ''transaction_commit'' tr2))
      | (Inl exn, tr2) \<Rightarrow>
          (ToolResult False PNone (Some exn)
             [(''transaction_id'', PStr transaction_id),
              (''queries_attempted'', PInt (int (length queries)))],
           snd (rollback be max_retries tr2)))"

text \<open>How often \<^verbatim>\<open>_execute\<close> was entered for a marker query.\<close>

definition invocations :: "string \<Rightarrow> event list \<Rightarrow> nat" where
  "invocations q tr = length (filter (\<lambda>e. case e of Invoke q' ot \<Rightarrow> q' = Some q | _ \<Rightarrow> False) tr)"

section \<open>The progress tracker\<close>

text \<open>
  A todo is a dictionary with the five keys \<^verbatim>\<open>id\<close>, \<^verbatim>\<open>content\<close>, \<^verbatim>\<open>status\<close>, \<^verbatim>\<open>created_at\<close>
  and \<^verbatim>\<open>updated_at\<close>. Content and status are \<open>None\<close> when the caller passed none. The two
  time stamps are readings of the clock, given to each operation as parameters.
\<close>

record todo =
  todo_id :: int
  content :: "string option"
  status :: "string option"
  created_at :: string
  updated_at :: string

text \<open>The state of a \<^verbatim>\<open>ProgressTrackerTool\<close>.\<close>

record tracker =
  todos :: "todo list"
  next_id :: int
  workflow_stats :: "(string \<times> pyval) list"

definition initial_stats :: "(string \<times> pyval) list" where
  "initial_stats = [(''started_at'', PNone), (''orders_processed'', PInt 0),
                    (''images_processed'', PInt 0), (''errors'', PInt 0)]"

text \<open>\<^verbatim>\<open>ProgressTrackerTool.__init__\<close>\<close>

definition tracker_init :: tracker where
  "tracker_init = \<lparr>todos = [], next_id = 1, workflow_stats = initial_stats\<rparr>"

definition todo_dict :: "todo \<Rightarrow> pyval" where
  "todo_dict t = dict_of [(''id'', PInt (todo_id t)), (''content'', opt_str (content t)),
                          (''status'', opt_str (status t)), (''created_at'', PStr (created_at t)),
                          (''updated_at'', PStr (updated_at t))]"

text \<open>\<^verbatim>\<open>d[k] = v\<close> on a dictionary: an existing key keeps its place, a new one goes last.\<close>

fun dict_set :: "'k \<Rightarrow> 'v \<Rightarrow> ('k \<times> 'v) list \<Rightarrow> ('k \<times> 'v) list" where
  "dict_set k v [] = [(k, v)]"
| "dict_set k v ((k', v') # kvs) = (if k = k' then (k, v) # kvs else (k', v') # dict_set k v kvs)"

text \<open>\<^verbatim>\<open>d.update(other)\<close>\<close>

definition dict_update :: "('k \<times> 'v) list \<Rightarrow> ('k \<times> 'v) list \<Rightarrow> ('k \<times> 'v) list" where
  "dict_update d other = fold (\<lambda>(k, v). dict_set k v) other d"

text \<open>\<^verbatim>\<open>ProgressTrackerTool._add_todo(content, status)\<close>\<close>

definition add_todo :: "string \<Rightarrow> string \<Rightarrow> string option \<Rightarrow> string \<Rightarrow> tracker \<Rightarrow> tool_result \<times> tracker" where
  "add_todo now1 now2 content' status' st =
     (let t = \<lparr>todo_id = next_id st, content = content', status = Some status',
                created_at = now1, updated_at = now2\<rparr>;
          st' = st\<lparr>todos := todos st @ [t], next_id := next_id st + 1\<rparr>
      in (ToolResult True (todo_dict t) None [(''total_todos'', PInt (int (length (todos st'))))],
          st'))"

text \<open>\<^verbatim>\<open>f"{todo_id}"\<close> for an id that may be \<^verbatim>\<open>None\<close>.\<close>

definition show_id :: "int option \<Rightarrow> string" where
  "show_id i = (case i of None \<Rightarrow> ''None'' | Some n \<Rightarrow> show_int n)"

text \<open>The assignment through the reference \<^verbatim>\<open>next(...)\<close> returned: the first match changes.\<close>

fun update_first :: "('a \<Rightarrow> bool) \<Rightarrow> ('a \<Rightarrow> 'a) \<Rightarrow> 'a list \<Rightarrow> 'a list" where
  "update_first P f [] = []"
| "update_first P f (x # xs) = (if P x then f x # xs else x # update_first P f xs)"

text \<open>\<^verbatim>\<open>ProgressTrackerTool._update_todo(todo_id, status)\<close>\<close>

definition update_todo :: "string \<Rightarrow> int option \<Rightarrow> string option \<Rightarrow> tracker \<Rightarrow> tool_result \<times> tracker" where
  "update_todo now i status' st =
     (case find (\<lambda>t. Some (todo_id t) = i) (todos st) of
        None \<Rightarrow> (ToolResult False PNone (Some (''Todo '' @ show_id i @ '' not found'')) [], st)
      | Some t \<Rightarrow>
          (ToolResult True (todo_dict (t\<lparr>status := status', updated_at := now\<rparr>)) None
             [(''total_todos'', PInt (int (length (todos st))))],
           st\<lparr>todos := update_first (\<lambda>t. Some (todo_id t) = i)
                            (\<lambda>t. t\<lparr>status := status', updated_at := now\<rparr>) (todos st)\<rparr>))"

text \<open>\<^verbatim>\<open>counts[status] = counts.get(status, 0) + 1\<close>\<close>

fun bump :: "'k \<Rightarrow> ('k \<times> nat) list \<Rightarrow> ('k \<times> nat) list" where
  "bump k [] = [(k, 1)]"
| "bump k ((k', n) # kvs) = (if k = k' then (k', n + 1) # kvs else (k', n) # bump k kvs)"

text \<open>\<^verbatim>\<open>ProgressTrackerTool._get_status_counts\<close>\<close>

definition get_status_counts :: "todo list \<Rightarrow> (string option \<times> nat) list" where
  "get_status_counts ts = fold (\<lambda>t counts. bump (status t) counts) ts []"

text \<open>\<^verbatim>\<open>status_counts.get(key, 0)\<close>\<close>

definition count_get :: "(string option \<times> nat) list \<Rightarrow> string \<Rightarrow> nat" where
  "count_get counts k = (case map_of counts (Some k) of None \<Rightarrow> 0 | Some n \<Rightarrow> n)"

definition counts_dict :: "(string option \<times> nat) list \<Rightarrow> pyval" where
  "counts_dict counts = PDict (map (\<lambda>(k, n). (opt_str k, PInt (int n))) counts)"

text \<open>\<^verbatim>\<open>ProgressTrackerTool._list_todos\<close>\<close>

definition list_todos :: "tracker \<Rightarrow> tool_result \<times> tracker" where
  "list_todos st =
     (ToolResult True (PList (map todo_dict (todos st))) None
        [(''total_todos'', PInt (int (length (todos st)))),
         (''by_status'', counts_dict (get_status_counts (todos st)))],
      st)"

text \<open>
  \<^verbatim>\<open>round((completed / total * 100), 2) if total > 0 else 0\<close>: a float, or the integer 0.
\<close>

definition percent_complete :: "nat \<Rightarrow> nat \<Rightarrow> pyval" where
  "percent_complete completed total' =
     (if total' > 0
      then PFloat (py_round2 (float_mul_int (int_truediv (int completed) (int total')) 100))
      else PInt 0)"

text \<open>\<^verbatim>\<open>ProgressTrackerTool._get_progress\<close>\<close>

definition get_progress :: "tracker \<Rightarrow> tool_result \<times> tracker" where
  "get_progress st =
     (let total' = length (todos st);
          status_counts = get_status_counts (todos st)
      in (ToolResult True
            (dict_of [(''total_todos'', PInt (int total')),
                      (''completed'', PInt (int (count_get status_counts ''completed''))),
                      (''in_progress'', PInt (int (count_get status_counts ''in_progress''))),
                      (''pending'', PInt (int (count_get status_counts ''pending''))),
                      (''percent_complete'',
                         percent_complete (count_get status_counts ''completed'') total'),
                      (''workflow_stats'', dict_of (workflow_stats st))])
            None [],
          st))"

text \<open>\<^verbatim>\<open>str(KeyError(k))\<close>: the key in quotes.\<close>

definition key_error :: "string \<Rightarrow> string" where
  "key_error k = CHR 0x27 # k @ [CHR 0x27]"

text \<open>
  \<^verbatim>\<open>ProgressTrackerTool._update_stats(updates)\<close>. Reading \<^verbatim>\<open>workflow_stats["started_at"]\<close>
  raises a KeyError when the key is absent (\<open>Inl\<close>); the caller \<^verbatim>\<open>_execute\<close> catches it.
\<close>

definition update_stats :: "string \<Rightarrow> (string \<times> pyval) list \<Rightarrow> tracker \<Rightarrow> (string + tool_result) \<times> tracker" where
  "update_stats now updates st =
     (let ws = dict_update (workflow_stats st) updates in
      if ''started_at'' \<in> set (map fst updates) then
        (case map_of ws ''started_at'' of
           None \<Rightarrow> (Inl (key_error ''started_at''), st\<lparr>workflow_stats := ws\<rparr>)
         | Some v \<Rightarrow>
             (let ws' = (if \<not> truthy v then dict_set ''started_at'' (PStr now) ws else ws)
              in (Inr (ToolResult True (dict_of ws') None []), st\<lparr>workflow_stats := ws'\<rparr>)))
      else (Inr (ToolResult True (dict_of ws) None []), st\<lparr>workflow_stats := ws\<rparr>))"

text \<open>\<^verbatim>\<open>ProgressTrackerTool._reset\<close>\<close>

definition reset :: "tracker \<Rightarrow> tool_result \<times> tracker" where
  "reset st = (ToolResult True (PStr ''Reset complete'') None [], tracker_init)"

text \<open>
  \<^verbatim>\<open>ProgressTrackerTool._execute(action, content, todo_id, status, stat_update)\<close>: the
  dispatch on the action, with \<^verbatim>\<open>status or "pending"\<close> and \<^verbatim>\<open>stat_update or {}\<close>, and the
  \<^verbatim>\<open>except\<close> clause that turns an exception into a failure envelope.
\<close>

definition tracker_execute ::
  "string \<Rightarrow> string \<Rightarrow> string \<Rightarrow> string option \<Rightarrow> int option \<Rightarrow> string option \<Rightarrow>
   (string \<times> pyval) list option \<Rightarrow> tracker \<Rightarrow> tool_result \<times> tracker" where
  "tracker_execute now1 now2 action content' i status' stat_update st =
     (if action = ''add_todo'' then
        add_todo now1 now2 content'
          (case status' of None \<Rightarrow> ''pending'' | Some s \<Rightarrow> if s \<noteq> [] then s else ''pending'') st
      else if action = ''update_todo'' then update_todo now1 i status' st
      else if action = ''list_todos'' then list_todos st
      else if action = ''get_progress'' then get_progress st
      else if action = ''update_stats'' then
        (case update_stats now1 (case stat_update of None \<Rightarrow> [] | Some u \<Rightarrow> u) st of
           (Inl exn, st') \<Rightarrow> (ToolResult False PNone (Some exn) [], st')
         | (Inr r, st') \<Rightarrow> (r, st'))
      else if action = ''reset'' then reset st
      else (ToolResult False PNone (Some (''Unknown action: '' @ action)) [], st))"

section \<open>Execution statistics\<close>

text \<open>
  \<^verbatim>\<open>class ExecutionStats\<close> of \<^verbatim>\<open>orbit_agent.py\<close>. A \<^verbatim>\<open>datetime\<close> is a point on the time axis in
  seconds (a multiple of a microsecond), so that \<^verbatim>\<open>(ended_at - started_at).total_seconds()\<close>
  is the double nearest to the difference. The derived metrics are floats.
\<close>

record execution_stats =
  started_at :: rat
  ended_at :: "rat option"
  orders_processed :: int
  images_processed :: int
  errors_encountered :: int
  phases_completed :: "string list"
  total_duration_seconds :: rat
  average_order_time :: rat
  average_image_time :: rat
  success_rate :: rat

text \<open>\<^verbatim>\<open>ExecutionStats(started_at=...)\<close>: every other field at its default.\<close>

definition new_stats :: "rat \<Rightarrow> execution_stats" where
  "new_stats t = \<lparr>started_at = t, ended_at = None, orders_processed = 0, images_processed = 0,
                  errors_encountered = 0, phases_completed = [], total_duration_seconds = 0,
                  average_order_time = 0, average_image_time = 0, success_rate = 0\<rparr>"

text \<open>\<^verbatim>\<open>self.orders_processed + self.images_processed\<close>\<close>

abbreviation total_operations :: "execution_stats \<Rightarrow> int" where
  "total_operations s \<equiv> orders_processed s + images_processed s"

text \<open>\<^verbatim>\<open>ExecutionStats.update_completion\<close>\<close>

definition update_completion :: "execution_stats \<Rightarrow> execution_stats" where
  "update_completion s =
     (case ended_at s of
        None \<Rightarrow> s
      | Some e \<Rightarrow>
          (let s1 = s\<lparr>total_duration_seconds := to_double (e - started_at s)\<rparr>;
               s2 = (if orders_processed s1 > 0
                     then s1\<lparr>average_order_time :=
                                float_div_int (total_duration_seconds s1) (orders_processed s1)\<rparr>
                     else s1);
               s3 = (if images_processed s2 > 0
                     then s2\<lparr>average_image_time :=
                                float_div_int (total_duration_seconds s2) (images_processed s2)\<rparr>
                     else s2);
               total_operations = orders_processed s3 + images_processed s3
           in if total_operations > 0
              then s3\<lparr>success_rate :=
                         float_mul_int
                           (int_truediv (total_operations - errors_encountered s3)
                              total_operations) 100\<rparr>
              else s3))"

section \<open>Health checks\<close>

text \<open>
  A probe is an awaited call of a tool: it returns an envelope (\<open>Inr\<close>) or raises (\<open>Inl\<close>,
  with the text of the exception).
\<close>

type_synonym probe = "string + tool_result"

text \<open>\<^verbatim>\<open>"healthy" if result.success else "unhealthy"\<close>, in both health checks.\<close>

definition component_status :: "tool_result \<Rightarrow> string" where
  "component_status r = (if success r then ''healthy'' else ''unhealthy'')"

text \<open>The reduction of \<^verbatim>\<open>ORBITAgent.health_check\<close> (\<^verbatim>\<open>orbit_agent.py\<close>).\<close>

definition agent_overall :: "string list \<Rightarrow> string" where
  "agent_overall component_statuses =
     (if list_all (\<lambda>s. s = ''healthy'') component_statuses then ''healthy''
      else if list_ex (\<lambda>s. s = ''healthy'') component_statuses then ''degraded''
      else ''unhealthy'')"

text \<open>The reduction of \<^verbatim>\<open>workflow_health_check\<close> (\<^verbatim>\<open>orbit_mcp_server.py\<close>).\<close>

definition mcp_overall :: "string list \<Rightarrow> string" where
  "mcp_overall component_statuses =
     (if list_all (\<lambda>s. s = ''healthy'') component_statuses then ''healthy''
      else if list_ex (\<lambda>s. s = ''healthy'') component_statuses then ''degraded''
      else ''unhealthy'')"

text \<open>The fields of \<^verbatim>\<open>ORBITConfig\<close> the health check and the workflow read.\<close>

record orbit_config =
  mock_mode :: bool
  gemini_endpoint :: "string option"
  metadata_endpoint :: "string option"
  timeout_seconds :: int

text \<open>
  The dictionary \<^verbatim>\<open>health_status\<close>: \<^verbatim>\<open>overall\<close>, \<^verbatim>\<open>components\<close> and, after an exception,
  \<^verbatim>\<open>error\<close>. The \<^verbatim>\<open>details\<close> entries are diagnostic texts and are left out.
\<close>

record health_status =
  overall :: string
  components :: "(string \<times> string) list"
  health_error :: "string option"

text \<open>Truthiness of an optional endpoint string.\<close>

definition configured :: "string option \<Rightarrow> bool" where
  "configured e = (case e of None \<Rightarrow> False | Some s \<Rightarrow> s \<noteq> [])"

text \<open>
  The inner \<^verbatim>\<open>try\<close> around the AI and the metadata probe: it runs only outside mock mode
  with an endpoint configured, and an exception makes the component unhealthy.
\<close>

definition optional_probe :: "orbit_config \<Rightarrow> string option \<Rightarrow> probe \<Rightarrow> bool" where
  "optional_probe cfg endpoint p =
     (if \<not> mock_mode cfg \<and> configured endpoint
      then (case p of Inl e \<Rightarrow> False | Inr r \<Rightarrow> success r)
      else True)"

text \<open>
  \<^verbatim>\<open>ORBITAgent.health_check\<close>, given the outcomes of the four probes. The second component
  of the result is \<^verbatim>\<open>self.is_healthy\<close>. An exception of the database or storage probe
  reaches the outer \<^verbatim>\<open>except\<close> clause.
\<close>

definition health_check ::
  "orbit_config \<Rightarrow> probe \<Rightarrow> probe \<Rightarrow> probe \<Rightarrow> probe \<Rightarrow> health_status \<times> bool" where
  "health_check cfg db storage ai md =
     (case db of
        Inl e \<Rightarrow> (\<lparr>overall = ''unhealthy'', components = [], health_error = Some e\<rparr>, False)
      | Inr db_result \<Rightarrow>
          (case storage of
             Inl e \<Rightarrow>
               (\<lparr>overall = ''unhealthy'',
                  components = [(''database'', component_status db_result)],
                  health_error = Some e\<rparr>, False)
           | Inr storage_result \<Rightarrow>
               (let ai_healthy = optional_probe cfg (gemini_endpoint cfg) ai;
                    metadata_healthy = optional_probe cfg (metadata_endpoint cfg) md;
                    comps = [(''database'', component_status db_result),
                             (''storage'', component_status storage_result),
                             (''ai_analysis'', if ai_healthy then ''healthy'' else ''unhealthy''),
                             (''metadata_embed'',
                                if metadata_healthy then ''healthy'' else ''unhealthy'')];
                    ov = agent_overall (map snd comps)
                in (\<lparr>overall = ov, components = comps, health_error = None\<rparr>,
                    ov = ''healthy''))))"

text \<open>One probe of the MCP server, in its own \<^verbatim>\<open>try\<close>.\<close>

definition mcp_component :: "probe \<Rightarrow> string" where
  "mcp_component p = (case p of Inl e \<Rightarrow> ''unhealthy'' | Inr r \<Rightarrow> component_status r)"

text \<open>
  \<^verbatim>\<open>workflow_health_check\<close> of \<^verbatim>\<open>orbit_mcp_server.py\<close>, given the outcomes of the database
  and the storage probe. The edge functions are assumed healthy by the source.
\<close>

definition workflow_health_check :: "probe \<Rightarrow> probe \<Rightarrow> tool_result" where
  "workflow_health_check db storage =
     (let comps = [(''database'', mcp_component db), (''storage'', mcp_component storage),
                   (''edge_functions'', ''healthy'')];
          ov = mcp_overall (map snd comps)
      in create_tool_result True
           (dict_of [(''overall'', PStr ov),
                     (''components'', dict_of (map (\<lambda>(k, v). (k, PStr v)) comps))])
           None [(''components_checked'', PInt (int (length comps)))])"

section \<open>The workflow run\<close>

text \<open>\<^verbatim>\<open>class WorkflowContext\<close> of \<^verbatim>\<open>orbit_prompt.py\<close>, without its time stamp.\<close>

record workflow_context =
  pending_orders_count :: int
  storage_accessible :: bool
  error_message :: "string option"
  order_id :: "string option"
  user_id :: "string option"
  batch_id :: "string option"
  current_phase :: string
  completed_phases :: "string list"

text \<open>
  One entry of \<^verbatim>\<open>result.tool_calls\<close>: the tool name, the text of the arguments, and the
  \<^verbatim>\<open>success\<close> flag of its result where there is one.
\<close>

record tool_call =
  tool_name :: string
  arguments :: string
  call_success :: "bool option"

text \<open>
  What \<^verbatim>\<open>asyncio.wait_for(self.agent.run(prompt), timeout)\<close> does: it returns a result (with
  tool calls or without that attribute), times out, or raises.
\<close>

datatype agent_outcome =
    Returned "tool_call list option"
  | TimedOut
  | Raised string

text \<open>The calls to collaborators a run makes, in order.\<close>

datatype call = HealthCheck | PrepareContext | ProgressAddTodo | AgentRun | ProcessAgentResult

text \<open>The attributes of the agent a run reads and writes.\<close>

record agent_state =
  stats :: execution_stats
  ctx :: workflow_context
  progress :: tracker
  calls :: "call list"

text \<open>The dictionary a run returns; a key that is absent is \<open>None\<close>.\<close>

record workflow_result =
  wf_success :: bool
  wf_message :: "string option"
  wf_error :: "string option"
  wf_stats :: execution_stats
  wf_context :: workflow_context
  wf_session_id :: "string option"

text \<open>\<^verbatim>\<open>needle in haystack\<close> on strings.\<close>

fun starts_with :: "string \<Rightarrow> string \<Rightarrow> bool" where
  "starts_with [] s = True"
| "starts_with (p # ps) [] = False"
| "starts_with (p # ps) (c # cs) = (p = c \<and> starts_with ps cs)"

fun contains_str :: "string \<Rightarrow> string \<Rightarrow> bool" where
  "contains_str p [] = (p = [])"
| "contains_str p (c # cs) = (starts_with p (c # cs) \<or> contains_str p cs)"

text \<open>The body of the loop over the tool calls in \<^verbatim>\<open>_process_agent_result\<close>.\<close>

definition count_call :: "tool_call \<Rightarrow> execution_stats \<Rightarrow> execution_stats" where
  "count_call c s =
     (let s1 = (if tool_name c = ''database_query'' then
                  (if contains_str ''UPDATE orders SET processing_stage'' (arguments c)
                   then s\<lparr>orders_processed := orders_processed s + 1\<rparr>
                   else if contains_str ''UPDATE images SET processing_status'' (arguments c)
                   then s\<lparr>images_processed := images_processed s + 1\<rparr>
                   else s)
                else s)
      in if call_success c = Some False
         then s1\<lparr>errors_encountered := errors_encountered s1 + 1\<rparr> else s1)"

text \<open>
  \<^verbatim>\<open>ORBITAgent._process_agent_result\<close>: the counters, then the \<^verbatim>\<open>update_stats\<close> action of
  the progress tracker.
\<close>

definition process_agent_result :: "string \<Rightarrow> tool_call list option \<Rightarrow> agent_state \<Rightarrow> agent_state" where
  "process_agent_result now r st =
     (let s = fold count_call (case r of None \<Rightarrow> [] | Some cs \<Rightarrow> cs) (stats st);
          p = snd (tracker_execute now now ''update_stats'' None None None
                     (Some [(''orders_processed'', PInt (orders_processed s)),
                            (''images_processed'', PInt (images_processed s)),
                            (''errors'', PInt (errors_encountered s))])
                     (progress st))
      in st\<lparr>stats := s, progress := p, calls := calls st @ [ProcessAgentResult]\<rparr>)"

text \<open>The \<^verbatim>\<open>except Exception as error\<close> clause of \<^verbatim>\<open>execute_workflow\<close>.\<close>

definition workflow_failed :: "rat \<Rightarrow> string \<Rightarrow> string \<Rightarrow> agent_state \<Rightarrow> workflow_result \<times> agent_state" where
  "workflow_failed t_end session e st =
     (let s = update_completion
                ((stats st)\<lparr>ended_at := Some t_end,
                            errors_encountered := errors_encountered (stats st) + 1\<rparr>);
          st' = st\<lparr>stats := s\<rparr>
      in (\<lparr>wf_success = False, wf_message = None, wf_error = Some e, wf_stats = s,
           wf_context = ctx st', wf_session_id = Some session\<rparr>, st'))"

text \<open>
  \<^verbatim>\<open>ORBITAgent.execute_workflow\<close>. The parameters are what the awaited collaborators give
  back: the health status (and its text, for the error message), the context
  \<^verbatim>\<open>prepare_workflow_context\<close> returns, the outcome of the agent run, and the readings of the
  clock.
\<close>

definition execute_workflow ::
  "orbit_config \<Rightarrow> rat \<Rightarrow> rat \<Rightarrow> string \<Rightarrow> string \<Rightarrow> health_status \<Rightarrow> string \<Rightarrow>
   workflow_context \<Rightarrow> agent_outcome \<Rightarrow> agent_state \<Rightarrow> workflow_result \<times> agent_state" where
  "execute_workflow cfg t_start t_end now session hs hs_text prepared outcome st =
     (let st0 = st\<lparr>stats := new_stats t_start, calls := calls st @ [HealthCheck]\<rparr> in
      if overall hs = ''unhealthy''
      then workflow_failed t_end session (''System health check failed: '' @ hs_text) st0
      else
        (let st1 = st0\<lparr>ctx := prepared, calls := calls st0 @ [PrepareContext]\<rparr> in
         if pending_orders_count prepared = 0
         then (\<lparr>wf_success = True, wf_message = Some ''No pending orders to process'',
                 wf_error = None, wf_stats = stats st1, wf_context = prepared,
                 wf_session_id = None\<rparr>, st1)
         else
           (let p = snd (tracker_execute now now ''add_todo''
                           (Some (''Process '' @ show_int (pending_orders_count prepared)
                                    @ '' pending orders''))
                           None (Some ''in_progress'') None (progress st1));
                st2 = st1\<lparr>progress := p, calls := calls st1 @ [ProgressAddTodo, AgentRun]\<rparr>
            in case outcome of
                 Returned r \<Rightarrow>
                   (let st3 = process_agent_result now r st2;
                        s = update_completion ((stats st3)\<lparr>ended_at := Some t_end\<rparr>);
                        st4 = st3\<lparr>stats := s\<rparr>
                    in (\<lparr>wf_success = True,
                          wf_message = Some ''Workflow completed successfully'',
                          wf_error = None, wf_stats = s, wf_context = ctx st4,
                          wf_session_id = Some session\<rparr>, st4))
               | TimedOut \<Rightarrow>
                   workflow_failed t_end session
                     (''Workflow timed out after '' @ show_int (timeout_seconds cfg)
                        @ '' seconds'') st2
               | Raised e \<Rightarrow> workflow_failed t_end session e st2)))"

section \<open>The claims of the specification, and concrete runs\<close>



text \<open>The number of todos whose status is \<^verbatim>\<open>completed\<close>.\<close>

abbreviation completed_todos :: "tracker \<Rightarrow> nat" where
  "completed_todos st \<equiv> length (filter (\<lambda>t. status t = Some ''completed'') (todos st))"

text \<open>
  The percentage as the specification words it: completed over total times 100, and 0 for
  an empty list.
\<close>

definition spec_percent :: "tracker \<Rightarrow> rat" where
  "spec_percent st =
     (if todos st = [] then 0
      else of_nat (length (filter (\<lambda>t. status t = Some ''completed'') (todos st)))
             / of_nat (length (todos st)) * 100)"

text \<open>
  The success rate as the specification words it: total operations minus errors, over total
  operations, times 100, and 0 when there is no operation.
\<close>

definition spec_success_rate :: "execution_stats \<Rightarrow> rat" where
  "spec_success_rate s =
     (if orders_processed s + images_processed s = 0 then 0
      else of_int (orders_processed s + images_processed s - errors_encountered s)
             / of_int (orders_processed s + images_processed s) * 100)"

text \<open>
  What the specification says of the derived metrics of a statistics record: nothing is
  derived while \<open>ended_at\<close> is unset, and afterwards the success rate is the rate above, as
  the doubles compute it, or 0 without operations.
\<close>

definition rate_ok :: "execution_stats \<Rightarrow> bool" where
  "rate_ok r =
     ((ended_at r = None \<longrightarrow>
         total_duration_seconds r = 0 \<and> average_order_time r = 0 \<and>
         average_image_time r = 0 \<and> success_rate r = 0) \<and>
      (ended_at r \<noteq> None \<longrightarrow>
         success_rate r =
           (if total_operations r > 0
            then float_mul_int
                   (int_truediv (total_operations r - errors_encountered r) (total_operations r))
                   100
            else 0) \<and>
         \<bar>success_rate r - spec_success_rate r\<bar> \<le> \<bar>spec_success_rate r\<bar> / 2 ^ 51))"

text \<open>Reading a key of a dictionary, and a number as a rational.\<close>

fun dict_get :: "pyval \<Rightarrow> string \<Rightarrow> pyval option" where
  "dict_get (PDict kvs) k = map_of kvs (PStr k)"
| "dict_get v k = None"

fun number :: "pyval \<Rightarrow> rat option" where
  "number (PInt i) = Some (of_int i)"
| "number (PFloat r) = Some r"
| "number v = None"

text \<open>The \<^verbatim>\<open>percent_complete\<close> entry of the data \<^verbatim>\<open>get_progress\<close> returns.\<close>

definition reported_percent :: "tracker \<Rightarrow> rat option" where
  "reported_percent st =
     (case dict_get (data (fst (get_progress st))) ''percent_complete'' of
        None \<Rightarrow> None | Some v \<Rightarrow> number v)"

text \<open>Backends: two server errors and then rows; two server errors and then no connection.\<close>

definition flaky_backend :: backend where
  "flaky_backend n q =
     (if n < 2 then Response 500 ''Internal Server Error'' (Inr PNone)
      else Response 200 [] (Inr (PList [dict_of [(''success'', PBool True)]])))"

definition down_backend :: backend where
  "down_backend n q =
     (if n < 2 then Response 500 ''Internal Server Error'' (Inr PNone)
      else PostRaises ''connection reset'')"

text \<open>A backend that answers every statement but refuses COMMIT.\<close>

definition commit_fails :: backend where
  "commit_fails n q =
     (if q = Some ''COMMIT'' then Response 500 ''commit refused'' (Inr PNone)
      else Response 200 [] (Inr (PList [])))"

definition one_insert :: "query_data list" where
  "one_insert = [\<lparr>sql = Some ''INSERT INTO table1 VALUES (1)'', query = None, params = []\<rparr>]"

text \<open>The backend and the queries of \<^verbatim>\<open>test_transaction_rollback\<close>.\<close>

definition second_fails :: backend where
  "second_fails n q =
     (if q = Some ''INVALID SQL'' then Response 400 ''Bad Request'' (Inr PNone)
      else Response 200 [] (Inr (PList [])))"

definition two_queries :: "query_data list" where
  "two_queries =
     [\<lparr>sql = Some ''INSERT INTO table1 VALUES (1)'', query = None, params = []\<rparr>,
      \<lparr>sql = Some ''INVALID SQL'', query = None, params = []\<rparr>]"


text \<open>The ledger of \<^verbatim>\<open>test_get_progress\<close>, and one with one todo of three completed.\<close>

definition four_todos :: tracker where
  "four_todos =
     snd (add_todo ''t7'' ''t8'' (Some ''Todo 4'') ''in_progress''
       (snd (add_todo ''t5'' ''t6'' (Some ''Todo 3'') ''pending''
         (snd (add_todo ''t3'' ''t4'' (Some ''Todo 2'') ''completed''
           (snd (add_todo ''t1'' ''t2'' (Some ''Todo 1'') ''completed'' tracker_init)))))))"

definition three_todos :: tracker where
  "three_todos =
     snd (add_todo ''t5'' ''t6'' (Some ''Todo 3'') ''pending''
       (snd (add_todo ''t3'' ''t4'' (Some ''Todo 2'') ''pending''
         (snd (add_todo ''t1'' ''t2'' (Some ''Todo 1'') ''completed'' tracker_init)))))"

text \<open>Ledgers with many todos: \<open>n\<close> more todos of one status.\<close>

fun add_todos :: "nat \<Rightarrow> string \<Rightarrow> tracker \<Rightarrow> tracker" where
  "add_todos 0 s st = st"
| "add_todos (Suc n) s st = add_todos n s (snd (add_todo ''t1'' ''t2'' None s st))"

definition ledger_23_of_160 :: tracker where
  "ledger_23_of_160 = add_todos 137 ''pending'' (add_todos 23 ''completed'' tracker_init)"

definition ledger_1_of_32 :: tracker where
  "ledger_1_of_32 = add_todos 31 ''pending'' (add_todos 1 ''completed'' tracker_init)"

text \<open>The update of \<^verbatim>\<open>test_update_stats\<close>.\<close>

definition test_stats_update :: "(string \<times> pyval) list" where
  "test_stats_update = [(''orders_processed'', PInt 5), (''images_processed'', PInt 20),
                        (''errors'', PInt 1)]"

text \<open>An agent before its first run, in mock mode, and a context with nothing pending.\<close>

definition idle_context :: workflow_context where
  "idle_context = \<lparr>pending_orders_count = 0, storage_accessible = True, error_message = None,
                    order_id = None, user_id = None, batch_id = None,
                    current_phase = ''initialization'', completed_phases = []\<rparr>"

definition fresh_agent :: agent_state where
  "fresh_agent = \<lparr>stats = new_stats 0, ctx = idle_context, progress = tracker_init, calls = []\<rparr>"

text \<open>
  A context with one pending order, and an agent run that reports twenty order updates,
  nine of them failed.
\<close>

definition busy_context :: workflow_context where
  "busy_context = idle_context\<lparr>pending_orders_count := 1\<rparr>"

definition order_update :: "bool \<Rightarrow> tool_call" where
  "order_update ok = \<lparr>tool_name = ''database_query'',
                       arguments = ''UPDATE orders SET processing_stage = 1'',
                       call_success = Some ok\<rparr>"

definition twenty_updates :: "tool_call list" where
  "twenty_updates = replicate 9 (order_update False) @ replicate 11 (order_update True)"

definition mock_config :: orbit_config where
  "mock_config = \<lparr>mock_mode = True, gemini_endpoint = None, metadata_endpoint = None,
                   timeout_seconds = 300\<rparr>"

definition degraded_status :: health_status where
  "degraded_status =
     fst (health_check mock_config (Inr (ToolResult True PNone None []))
            (Inr (ToolResult False PNone (Some ''bucket not found'') [])) (Inl []) (Inl []))"



section \<open>Properties of the floating point operations\<close>

lemma round_half_even_near: "\<bar>of_int (round_half_even x) - x\<bar> \<le> 1 / 2"
proof -
  have lo: "of_int \<lfloor>x\<rfloor> \<le> x" and hi: "x < of_int \<lfloor>x\<rfloor> + 1"
    by linarith+
  consider "x - of_int \<lfloor>x\<rfloor> < 1 / 2" | "1 / 2 < x - of_int \<lfloor>x\<rfloor>"
    | "x - of_int \<lfloor>x\<rfloor> = 1 / 2"
    by linarith
  then show ?thesis
  proof cases
    case 1
    then have "round_half_even x = \<lfloor>x\<rfloor>"
      by (simp add: round_half_even_def Let_def)
    with lo 1 show ?thesis by simp
  next
    case 2
    then have "round_half_even x = \<lfloor>x\<rfloor> + 1"
      by (simp add: round_half_even_def Let_def)
    with hi 2 show ?thesis by simp
  next
    case 3
    then have "round_half_even x = \<lfloor>x\<rfloor> \<or> round_half_even x = \<lfloor>x\<rfloor> + 1"
      by (simp add: round_half_even_def Let_def)
    with 3 show ?thesis by auto
  qed
qed

lemma floor_log2_le:
  assumes "0 < x"
  shows "2 powi (floor_log2 x) \<le> x"
proof -
  obtain a b where q: "quotient_of x = (a, b)"
    by (cases "quotient_of x")
  then have b: "0 < b" and x: "x = of_int a / of_int b"
    using quotient_of_denom_pos quotient_of_div by blast+
  with assms have a: "0 < a"
    by (simp add: zero_less_divide_iff)
  let ?d = "bitlen a - bitlen b"
  show ?thesis
  proof (cases "2 powi ?d \<le> x")
    case True
    then show ?thesis by (simp add: floor_log2_def q)
  next
    case False
    then have fl: "floor_log2 x = ?d - 1"
      by (simp add: floor_log2_def q)
    from bitlen_bounds [OF a] have la: "(2::int) ^ nat (bitlen a - 1) \<le> a" by simp
    from bitlen_bounds [OF b] have ub: "b < (2::int) ^ nat (bitlen b)" by simp
    have ba: "1 \<le> bitlen a" using a by (simp add: bitlen_alt_def)
    have bb: "1 \<le> bitlen b" using b by (simp add: bitlen_alt_def)
    have la': "(2::rat) powi (bitlen a - 1) \<le> of_int a"
    proof -
      have "(2::rat) powi (bitlen a - 1) = of_int (2 ^ nat (bitlen a - 1))"
        using ba by (simp add: power_int_def)
      also have "\<dots> \<le> of_int a" using la by (simp only: of_int_le_iff)
      finally show ?thesis .
    qed
    have ub': "of_int b \<le> (2::rat) powi (bitlen b)"
    proof -
      have "(of_int b :: rat) \<le> of_int (2 ^ nat (bitlen b))"
        using ub by (simp only: of_int_le_iff)
      also have "\<dots> = (2::rat) powi (bitlen b)"
        using bb by (simp add: power_int_def)
      finally show ?thesis .
    qed
    have "(2::rat) powi (?d - 1) = 2 powi (bitlen a - 1) / 2 powi (bitlen b)"
      by (simp add: power_int_diff)
    also have "\<dots> \<le> of_int a / of_int b"
    proof -
      have "(2::rat) powi (bitlen a - 1) * of_int b \<le> of_int a * 2 powi (bitlen b)"
        using la' ub' a b by (intro mult_mono) auto
      then show ?thesis
        using b by (simp add: field_simps)
    qed
    finally have "(2::rat) powi (?d - 1) \<le> x" by (simp add: x)
    then show ?thesis unfolding fl .
  qed
qed

lemma to_double_error: "\<bar>to_double x - x\<bar> \<le> \<bar>x\<bar> / 2 ^ 53"
proof (cases "x = 0")
  case True
  then show ?thesis by (simp add: to_double_def)
next
  case False
  define e where "e = floor_log2 \<bar>x\<bar> - 52"
  define p :: rat where "p = 2 powi e"
  have ppos: "0 < p" by (simp add: p_def)
  have td: "to_double x = of_int (round_half_even (x / p)) * p"
    using False by (simp add: to_double_def e_def p_def Let_def)
  have "2 powi (floor_log2 \<bar>x\<bar>) \<le> \<bar>x\<bar>"
    using False by (intro floor_log2_le) simp
  moreover have "(2::rat) powi (floor_log2 \<bar>x\<bar>) = p * 2 ^ 52"
    by (simp add: p_def e_def power_int_diff)
  ultimately have pb: "p * 2 ^ 52 \<le> \<bar>x\<bar>" by simp
  have "\<bar>to_double x - x\<bar> = \<bar>of_int (round_half_even (x / p)) - x / p\<bar> * p"
  proof -
    have "to_double x - x = (of_int (round_half_even (x / p)) - x / p) * p"
      using ppos by (simp add: td field_simps)
    then show ?thesis using ppos by (simp add: abs_mult)
  qed
  also have "\<dots> \<le> 1 / 2 * p"
    using round_half_even_near [of "x / p"] ppos by (intro mult_right_mono) auto
  also have "\<dots> \<le> \<bar>x\<bar> / 2 ^ 53"
    using pb by simp
  finally show ?thesis .
qed

lemma to_double_100: "to_double (of_int 100) = 100"
  by code_simp

lemma float_mul_100: "float_mul_int x 100 = to_double (x * 100)"
  by (simp add: float_mul_int_def to_double_100 [simplified])

text \<open>A ratio rounded to a double and multiplied by 100: the relative error is at most \<open>2\<^sup>-\<^sup>5\<^sup>1\<close>.\<close>

lemma ratio_times_100_error:
  "\<bar>float_mul_int (to_double q) 100 - q * 100\<bar> \<le> \<bar>q\<bar> * 100 / 2 ^ 51"
proof -
  define x1 where "x1 = to_double q"
  have e1: "\<bar>x1 - q\<bar> \<le> \<bar>q\<bar> / 2 ^ 53"
    unfolding x1_def by (rule to_double_error)
  have e2: "\<bar>to_double (x1 * 100) - x1 * 100\<bar> \<le> \<bar>x1 * 100\<bar> / 2 ^ 53"
    by (rule to_double_error)
  have b1: "\<bar>x1\<bar> \<le> \<bar>q\<bar> + \<bar>q\<bar> / 2 ^ 53"
    using e1 by linarith
  have "\<bar>x1 * 100\<bar> = \<bar>x1\<bar> * 100" by (simp add: abs_mult)
  moreover from b1 have "\<bar>x1\<bar> * 100 \<le> (\<bar>q\<bar> + \<bar>q\<bar> / 2 ^ 53) * 100"
    by simp
  then have "\<bar>x1\<bar> * 100 / 2 ^ 53 \<le> (\<bar>q\<bar> + \<bar>q\<bar> / 2 ^ 53) * 100 / 2 ^ 53"
    by (rule divide_right_mono) simp
  ultimately have e2': "\<bar>to_double (x1 * 100) - x1 * 100\<bar> \<le> (\<bar>q\<bar> + \<bar>q\<bar> / 2 ^ 53) * 100 / 2 ^ 53"
    using e2 by linarith
  have "\<bar>to_double (x1 * 100) - q * 100\<bar> \<le> \<bar>to_double (x1 * 100) - x1 * 100\<bar> + \<bar>x1 - q\<bar> * 100"
  proof -
    have "to_double (x1 * 100) - q * 100 = (to_double (x1 * 100) - x1 * 100) + (x1 - q) * 100"
      by (simp add: algebra_simps)
    moreover have "\<bar>(x1 - q) * 100\<bar> = \<bar>x1 - q\<bar> * 100"
      by (subst abs_mult) simp
    ultimately show ?thesis
      using abs_triangle_ineq [of "to_double (x1 * 100) - x1 * 100" "(x1 - q) * 100"]
      by (simp only:)
  qed
  also have "\<dots> \<le> (\<bar>q\<bar> + \<bar>q\<bar> / 2 ^ 53) * 100 / 2 ^ 53 + \<bar>q\<bar> / 2 ^ 53 * 100"
    using e1 e2' by linarith
  also have "\<dots> \<le> \<bar>q\<bar> * 100 / 2 ^ 51"
  proof -
    have "0 \<le> \<bar>q\<bar>" by simp
    then show ?thesis by (simp add: field_simps)
  qed
  finally show ?thesis
    by (simp add: float_mul_100 x1_def)
qed

section \<open>Properties of the retrying executor\<close>

lemma show_int_digits: "show_int 7 = ''7''" "show_int 500 = ''500''"
  by (simp_all add: show_int_def show_nat.simps digit_char_def)

lemma posts_append [simp]: "posts (tr @ es) = posts tr + posts es"
  by (simp add: posts_def)

lemma posts_simps [simp]:
  "posts [] = 0"
  "posts (Post q ps # es) = Suc (posts es)"
  "posts (Sleep n # es) = posts es"
  "posts (Invoke q' ot # es) = posts es"
  by (simp_all add: posts_def)

lemma try_once_fail:
  "attempt_error resp = Some m \<Longrightarrow> try_once resp (Some q) ot a = Inl m"
  by (cases resp) (auto simp: try_once_def split: if_splits sum.splits)

lemma try_once_ok:
  "try_once (Response 200 body (Inr d)) (Some q) ot a =
     Inr (ToolResult True d None
            [(''query'', PStr (short_query q)), (''row_count'', PInt (row_count d)),
             (''attempts'', PInt (int a + 1)), (''operation_type'', PStr ot)])"
  by (simp add: try_once_def)

text \<open>One turn of the loop: a failed attempt, a successful one, and the exit.\<close>

lemma loop_fail:
  assumes "int a < (if retry then mr else 1)"
      and "attempt_error (be (posts tr) (Some q)) = Some m"
  shows "execute_loop be mr (Some q) ps retry ot a le tr =
         execute_loop be mr (Some q) ps retry ot (Suc a) (Some m)
           (tr @ [Post (Some q) ps] @
              (if int (Suc a) < mr \<and> retry then [Sleep (2 ^ Suc a)] else []))"
  using assms by (subst execute_loop.simps) (simp add: try_once_fail)

lemma loop_ok:
  assumes "int a < (if retry then mr else 1)"
      and "be (posts tr) (Some q) = Response 200 body (Inr d)"
  shows "execute_loop be mr (Some q) ps retry ot a le tr =
         (Inr (ToolResult True d None
            [(''query'', PStr (short_query q)), (''row_count'', PInt (row_count d)),
             (''attempts'', PInt (int a + 1)), (''operation_type'', PStr ot)]),
          tr @ [Post (Some q) ps])"
  using assms by (subst execute_loop.simps) (simp add: try_once_ok)

lemma loop_stop:
  assumes "\<not> int a < (if retry then mr else 1)"
  shows "execute_loop be mr q ps retry ot a le tr = (give_up q ot a le, tr)"
  using assms by (subst execute_loop.simps) simp

lemma two_failures:
  assumes f1: "attempt_error (be (posts tr) (Some q)) = Some m1"
      and f2: "attempt_error (be (posts tr + 1) (Some q)) = Some m2"
  shows "execute be 3 (Some q) ps True ot tr =
         execute_loop be 3 (Some q) ps True ot (Suc (Suc 0)) (Some m2)
           (tr @ [Invoke (Some q) ot, Post (Some q) ps, Sleep 2, Post (Some q) ps, Sleep 4])"
proof -
  have "execute be 3 (Some q) ps True ot tr =
        execute_loop be 3 (Some q) ps True ot (Suc 0) (Some m1)
          (tr @ [Invoke (Some q) ot, Post (Some q) ps, Sleep 2])"
    unfolding execute_def using f1 by (subst loop_fail [where m = m1]) simp_all
  also have "\<dots> = execute_loop be 3 (Some q) ps True ot (Suc (Suc 0)) (Some m2)
           (tr @ [Invoke (Some q) ot, Post (Some q) ps, Sleep 2, Post (Some q) ps, Sleep 4])"
    using f2 by (subst loop_fail [where m = m2]) simp_all
  finally show ?thesis .
qed

lemma third_succeeds:
  assumes "attempt_error (be (posts tr) (Some q)) = Some m1"
      and "attempt_error (be (posts tr + 1) (Some q)) = Some m2"
      and ok: "be (posts tr + 2) (Some q) = Response 200 body (Inr d)"
  shows "execute be 3 (Some q) ps True ot tr =
           (Inr (ToolResult True d None
                   [(''query'', PStr (short_query q)), (''row_count'', PInt (row_count d)),
                    (''attempts'', PInt 3), (''operation_type'', PStr ot)]),
            tr @ [Invoke (Some q) ot, Post (Some q) ps, Sleep 2, Post (Some q) ps, Sleep 4,
                  Post (Some q) ps])"
proof -
  have "execute be 3 (Some q) ps True ot tr =
         execute_loop be 3 (Some q) ps True ot (Suc (Suc 0)) (Some m2)
           (tr @ [Invoke (Some q) ot, Post (Some q) ps, Sleep 2, Post (Some q) ps, Sleep 4])"
    using assms(1,2) by (rule two_failures)
  also have "\<dots> = (Inr (ToolResult True d None
                   [(''query'', PStr (short_query q)), (''row_count'', PInt (row_count d)),
                    (''attempts'', PInt 3), (''operation_type'', PStr ot)]),
            tr @ [Invoke (Some q) ot, Post (Some q) ps, Sleep 2, Post (Some q) ps, Sleep 4,
                  Post (Some q) ps])"
    using ok by (subst loop_ok [where body = body and d = d]) simp_all
  finally show ?thesis .
qed

lemma third_fails:
  assumes "attempt_error (be (posts tr) (Some q)) = Some m1"
      and "attempt_error (be (posts tr + 1) (Some q)) = Some m2"
      and f3: "attempt_error (be (posts tr + 2) (Some q)) = Some m3"
  shows "execute be 3 (Some q) ps True ot tr =
           (Inr (ToolResult False PNone (Some m3)
                   [(''query'', PStr (short_query q)), (''attempts'', PInt 3),
                    (''operation_type'', PStr ot)]),
            tr @ [Invoke (Some q) ot, Post (Some q) ps, Sleep 2, Post (Some q) ps, Sleep 4,
                  Post (Some q) ps])"
proof -
  have "execute be 3 (Some q) ps True ot tr =
         execute_loop be 3 (Some q) ps True ot (Suc (Suc 0)) (Some m2)
           (tr @ [Invoke (Some q) ot, Post (Some q) ps, Sleep 2, Post (Some q) ps, Sleep 4])"
    using assms(1,2) by (rule two_failures)
  also have "\<dots> =
        execute_loop be 3 (Some q) ps True ot (Suc (Suc (Suc 0))) (Some m3)
           (tr @ [Invoke (Some q) ot, Post (Some q) ps, Sleep 2, Post (Some q) ps, Sleep 4,
                  Post (Some q) ps])"
    using f3 by (subst loop_fail [where m = m3]) simp_all
  also have "\<dots> = (give_up (Some q) ot (Suc (Suc (Suc 0))) (Some m3),
           tr @ [Invoke (Some q) ot, Post (Some q) ps, Sleep 2, Post (Some q) ps, Sleep 4,
                  Post (Some q) ps])"
    by (subst loop_stop) simp_all
  finally show ?thesis
    by (simp add: give_up_def)
qed

text \<open>
  Claim C3. With three attempts allowed and retrying on, a query whose first two attempts
  fail and whose third returns rows yields the success envelope with \<open>attempts = 3\<close>; a query
  whose three attempts fail yields the failure envelope with the third error and
  \<open>attempts = 3\<close>. In both runs the executor posts three times and sleeps 2 seconds after
  the first attempt and 4 after the second, and not after the third.
\<close>

theorem retry_three_attempts:
  "(attempt_error (be (posts tr) (Some q)) = Some m1 \<and>
    attempt_error (be (posts tr + 1) (Some q)) = Some m2 \<and>
    be (posts tr + 2) (Some q) = Response 200 body (Inr d) \<longrightarrow>
      execute be 3 (Some q) ps True ot tr =
        (Inr (ToolResult True d None
                [(''query'', PStr (short_query q)), (''row_count'', PInt (row_count d)),
                 (''attempts'', PInt 3), (''operation_type'', PStr ot)]),
         tr @ [Invoke (Some q) ot, Post (Some q) ps, Sleep 2, Post (Some q) ps, Sleep 4,
               Post (Some q) ps])) \<and>
   (attempt_error (be (posts tr) (Some q)) = Some m1 \<and>
    attempt_error (be (posts tr + 1) (Some q)) = Some m2 \<and>
    attempt_error (be (posts tr + 2) (Some q)) = Some m3 \<longrightarrow>
      execute be 3 (Some q) ps True ot tr =
        (Inr (ToolResult False PNone (Some m3)
                [(''query'', PStr (short_query q)), (''attempts'', PInt 3),
                 (''operation_type'', PStr ot)]),
         tr @ [Invoke (Some q) ot, Post (Some q) ps, Sleep 2, Post (Some q) ps, Sleep 4,
               Post (Some q) ps]))"
  using third_succeeds [of be tr q m1 m2 body d ps ot] third_fails [of be tr q m1 m2 m3 ps ot]
  by blast

theorem retry_three_attempts_witness:
  "execute flaky_backend 3 (Some ''SELECT 1'') [] True ''query'' [] =
     (Inr (ToolResult True (PList [dict_of [(''success'', PBool True)]]) None
             [(''query'', PStr ''SELECT 1''), (''row_count'', PInt 1),
              (''attempts'', PInt 3), (''operation_type'', PStr ''query'')]),
      [Invoke (Some ''SELECT 1'') ''query'', Post (Some ''SELECT 1'') [], Sleep 2,
       Post (Some ''SELECT 1'') [], Sleep 4, Post (Some ''SELECT 1'') []]) \<and>
   execute down_backend 3 (Some ''SELECT 1'') [] True ''query'' [] =
     (Inr (ToolResult False PNone (Some ''connection reset'')
             [(''query'', PStr ''SELECT 1''), (''attempts'', PInt 3),
              (''operation_type'', PStr ''query'')]),
      [Invoke (Some ''SELECT 1'') ''query'', Post (Some ''SELECT 1'') [], Sleep 2,
       Post (Some ''SELECT 1'') [], Sleep 4, Post (Some ''SELECT 1'') []])"
  using retry_three_attempts [of flaky_backend "[]" "''SELECT 1''"
          "''Database error: 500 - Internal Server Error''"
          "''Database error: 500 - Internal Server Error''" "[]"
          "PList [dict_of [(''success'', PBool True)]]" "[]" "''query''" "''unused''"]
        retry_three_attempts [of down_backend "[]" "''SELECT 1''"
          "''Database error: 500 - Internal Server Error''"
          "''Database error: 500 - Internal Server Error''" "[]" "PNone"
          "[]" "''query''" "''connection reset''"]
  by (simp add: flaky_backend_def down_backend_def show_int_digits short_query_def)

section \<open>Properties of the progress tracker\<close>

lemma four_todos_eq:
  "four_todos =
     \<lparr>todos = [\<lparr>todo_id = 1, content = Some ''Todo 1'', status = Some ''completed'',
                 created_at = ''t1'', updated_at = ''t2''\<rparr>,
               \<lparr>todo_id = 2, content = Some ''Todo 2'', status = Some ''completed'',
                 created_at = ''t3'', updated_at = ''t4''\<rparr>,
               \<lparr>todo_id = 3, content = Some ''Todo 3'', status = Some ''pending'',
                 created_at = ''t5'', updated_at = ''t6''\<rparr>,
               \<lparr>todo_id = 4, content = Some ''Todo 4'', status = Some ''in_progress'',
                 created_at = ''t7'', updated_at = ''t8''\<rparr>],
      next_id = 5, workflow_stats = initial_stats\<rparr>"
  by (simp add: four_todos_def add_todo_def tracker_init_def Let_def)

text \<open>
  Claim C10. When no todo of the ledger has the id asked for, \<^verbatim>\<open>_update_todo\<close> (called
  directly or through the \<^verbatim>\<open>update_todo\<close> action) returns the failure envelope whose error
  is \<^verbatim>\<open>Todo <id> not found\<close>, and the ledger it leaves is the ledger it found: the same
  todos, the same next id, the same workflow counters.
\<close>

theorem update_todo_not_found:
  "\<forall>t\<in>set (todos st). Some (todo_id t) \<noteq> i \<Longrightarrow>
     update_todo now i s st =
       (ToolResult False PNone (Some (''Todo '' @ show_id i @ '' not found'')) [], st) \<and>
     tracker_execute now now2 ''update_todo'' c i s u st =
       (ToolResult False PNone (Some (''Todo '' @ show_id i @ '' not found'')) [], st)"
proof -
  assume "\<forall>t\<in>set (todos st). Some (todo_id t) \<noteq> i"
  then have "find (\<lambda>t. Some (todo_id t) = i) (todos st) = None"
    by (simp add: find_None_iff)
  then show ?thesis
    by (simp add: update_todo_def tracker_execute_def)
qed

theorem update_todo_not_found_witness:
  "update_todo ''t9'' (Some 7) (Some ''completed'') four_todos =
     (ToolResult False PNone (Some ''Todo 7 not found'') [], four_todos) \<and>
   tracker_execute ''t9'' ''t9'' ''update_todo'' None (Some 7) (Some ''completed'') None four_todos =
     (ToolResult False PNone (Some ''Todo 7 not found'') [], four_todos)"
  using update_todo_not_found [of four_todos "Some 7" "''t9''" "Some ''completed''" "''t9''" None None]
  by (simp add: four_todos_eq show_id_def show_int_digits)

section \<open>Properties of the health checks\<close>




text \<open>Both health checks reduce the statuses of their components with these functions.\<close>

lemma health_check_overall:
  "overall (fst (health_check cfg (Inr d) (Inr s) ai md)) =
     agent_overall (map snd (components (fst (health_check cfg (Inr d) (Inr s) ai md))))"
  by (simp add: health_check_def Let_def)

lemma workflow_health_check_overall:
  "dict_get (data (workflow_health_check db storage)) ''overall'' =
     Some (PStr (mcp_overall [mcp_component db, mcp_component storage, ''healthy'']))"
  by (simp add: workflow_health_check_def create_tool_result_def dict_of_def Let_def)



section \<open>Properties of the workflow run\<close>

lemma degraded_status_eq:
  "degraded_status = \<lparr>overall = ''degraded'',
     components = [(''database'', ''healthy''), (''storage'', ''unhealthy''),
                   (''ai_analysis'', ''healthy''), (''metadata_embed'', ''healthy'')],
     health_error = None\<rparr>"
  by (simp add: degraded_status_def health_check_def mock_config_def ToolResult_def
      component_status_def optional_probe_def agent_overall_def Let_def)

text \<open>
  Claim C9. When the health check is not unhealthy and the prepared context has no pending
  order, \<^verbatim>\<open>execute_workflow\<close> returns the success result with the message
  \<^verbatim>\<open>No pending orders to process\<close>; the only collaborators it called are the health check and
  the context preparation, so the agent run is not among them, whatever that run would
  have done.
\<close>

theorem no_pending_orders:
  "overall hs \<noteq> ''unhealthy'' \<Longrightarrow> pending_orders_count prepared = 0 \<Longrightarrow>
     execute_workflow cfg t_start t_end now session hs hs_text prepared outcome st =
       (\<lparr>wf_success = True, wf_message = Some ''No pending orders to process'',
          wf_error = None, wf_stats = new_stats t_start, wf_context = prepared,
          wf_session_id = None\<rparr>,
        st\<lparr>stats := new_stats t_start, ctx := prepared,
            calls := calls st @ [HealthCheck, PrepareContext]\<rparr>) \<and>
     AgentRun \<notin> set (drop (length (calls st))
        (calls (snd (execute_workflow cfg t_start t_end now session hs hs_text prepared
                       outcome st))))"
  by (simp add: execute_workflow_def Let_def)

theorem no_pending_orders_witness:
  "execute_workflow mock_config 10 20 ''t1'' ''orbit_1'' degraded_status ''{}'' idle_context
      (Raised ''unreachable'') fresh_agent =
     (\<lparr>wf_success = True, wf_message = Some ''No pending orders to process'',
        wf_error = None, wf_stats = new_stats 10, wf_context = idle_context,
        wf_session_id = None\<rparr>,
      fresh_agent\<lparr>stats := new_stats 10, ctx := idle_context,
                  calls := [HealthCheck, PrepareContext]\<rparr>)"
  using no_pending_orders [of degraded_status idle_context mock_config 10 20 "''t1''" "''orbit_1''"
      "''{}''" "Raised ''unreachable''" fresh_agent]
  by (simp add: degraded_status_eq idle_context_def fresh_agent_def)

section \<open>Properties of the execution statistics\<close>

lemma update_completion_unset: "ended_at s = None \<Longrightarrow> update_completion s = s"
  by (simp add: update_completion_def)

lemma update_completion_rate:
  "ended_at s = Some e \<Longrightarrow>
   success_rate (update_completion s) =
     (if total_operations s > 0
      then float_mul_int
             (int_truediv (total_operations s - errors_encountered s) (total_operations s)) 100
      else success_rate s)"
  by (simp add: update_completion_def Let_def)

lemma update_completion_counters:
  "orders_processed (update_completion s) = orders_processed s"
  "images_processed (update_completion s) = images_processed s"
  "errors_encountered (update_completion s) = errors_encountered s"
  "ended_at (update_completion s) = ended_at s"
  by (simp_all add: update_completion_def Let_def split: option.splits)

lemma success_rate_error:
  assumes "total_operations s > 0"
  shows "\<bar>float_mul_int
            (int_truediv (total_operations s - errors_encountered s) (total_operations s)) 100
          - spec_success_rate s\<bar> \<le> \<bar>spec_success_rate s\<bar> / 2 ^ 51"
proof -
  define q :: rat where
    "q = of_int (total_operations s - errors_encountered s) / of_int (total_operations s)"
  have sp: "spec_success_rate s = q * 100"
    using assms by (simp add: spec_success_rate_def q_def)
  have "\<bar>float_mul_int (to_double q) 100 - q * 100\<bar> \<le> \<bar>q\<bar> * 100 / 2 ^ 51"
    by (rule ratio_times_100_error)
  moreover have "\<bar>q * 100\<bar> = \<bar>q\<bar> * 100"
    by (subst abs_mult) simp
  ultimately show ?thesis
    by (simp only: sp int_truediv_def q_def)
qed

lemma count_call_keeps:
  "success_rate (count_call c s) = success_rate s"
  "ended_at (count_call c s) = ended_at s"
  "total_duration_seconds (count_call c s) = total_duration_seconds s"
  "average_order_time (count_call c s) = average_order_time s"
  "average_image_time (count_call c s) = average_image_time s"
  by (simp_all add: count_call_def Let_def)

lemma fold_count_call_keeps:
  "success_rate (fold count_call cs s) = success_rate s"
  by (induction cs arbitrary: s) (simp_all add: count_call_keeps)

text \<open>The statistics a run returns, for each way the run can end.\<close>

lemma run_stats:
  "wf_stats (fst (execute_workflow cfg t_start t_end now session hs hs_text prepared outcome st)) =
     (if overall hs = ''unhealthy''
      then update_completion ((new_stats t_start)\<lparr>ended_at := Some t_end, errors_encountered := 1\<rparr>)
      else if pending_orders_count prepared = 0 then new_stats t_start
      else (case outcome of
              Returned r \<Rightarrow>
                update_completion
                  ((fold count_call (case r of None \<Rightarrow> [] | Some cs \<Rightarrow> cs) (new_stats t_start))
                     \<lparr>ended_at := Some t_end\<rparr>)
            | TimedOut \<Rightarrow>
                update_completion
                  ((new_stats t_start)\<lparr>ended_at := Some t_end, errors_encountered := 1\<rparr>)
            | Raised e \<Rightarrow>
                update_completion
                  ((new_stats t_start)\<lparr>ended_at := Some t_end, errors_encountered := 1\<rparr>)))"
  by (simp add: execute_workflow_def workflow_failed_def process_agent_result_def Let_def
      new_stats_def split: agent_outcome.splits)

lemma rate_ok_completed:
  assumes "success_rate s = 0" and "0 \<le> orders_processed s" and "0 \<le> images_processed s"
  shows "rate_ok (update_completion (s\<lparr>ended_at := Some e\<rparr>))"
proof -
  let ?s = "s\<lparr>ended_at := Some e\<rparr>"
  let ?r = "update_completion ?s"
  have en: "ended_at ?s = Some e" by simp
  have sr: "spec_success_rate ?r = spec_success_rate ?s"
    by (simp add: spec_success_rate_def update_completion_counters)
  show ?thesis
  proof (cases "total_operations s > 0")
    case True
    then have tp: "total_operations ?s > 0" by simp
    from success_rate_error [OF tp] update_completion_rate [OF en] True
    show ?thesis
      unfolding rate_ok_def sr by (simp add: update_completion_counters)
  next
    case False
    with assms(2,3) have z: "total_operations s = 0" by linarith
    with update_completion_rate [OF en] assms(1) have "success_rate ?r = 0" by simp
    moreover from z have "spec_success_rate ?s = 0"
      by (simp add: spec_success_rate_def)
    ultimately show ?thesis
      using z unfolding rate_ok_def sr by (simp add: update_completion_counters)
  qed
qed

lemma count_call_nonneg:
  "0 \<le> orders_processed s \<Longrightarrow> 0 \<le> orders_processed (count_call c s)"
  "0 \<le> images_processed s \<Longrightarrow> 0 \<le> images_processed (count_call c s)"
  by (simp_all add: count_call_def Let_def)

lemma fold_count_call_nonneg:
  "0 \<le> orders_processed s \<Longrightarrow> 0 \<le> images_processed s \<Longrightarrow>
     0 \<le> orders_processed (fold count_call cs s) \<and> 0 \<le> images_processed (fold count_call cs s)"
  by (induction cs arbitrary: s) (simp_all add: count_call_nonneg)

lemma rate_ok_new: "rate_ok (new_stats t)"
  by (simp add: rate_ok_def new_stats_def)

lemma rate_ok_failed:
  "rate_ok (update_completion ((new_stats t)\<lparr>ended_at := Some e, errors_encountered := 1\<rparr>))"
proof -
  have "rate_ok (update_completion (((new_stats t)\<lparr>errors_encountered := 1\<rparr>)\<lparr>ended_at := Some e\<rparr>))"
    by (rule rate_ok_completed) (simp_all add: new_stats_def)
  then show ?thesis by (simp add: new_stats_def)
qed

lemma rate_ok_returned:
  "rate_ok (update_completion ((fold count_call cs (new_stats t))\<lparr>ended_at := Some e\<rparr>))"
proof (rule rate_ok_completed)
  show "success_rate (fold count_call cs (new_stats t)) = 0"
    by (simp add: fold_count_call_keeps new_stats_def)
  show "0 \<le> orders_processed (fold count_call cs (new_stats t))"
    using fold_count_call_nonneg [of "new_stats t" cs] by (simp add: new_stats_def)
  show "0 \<le> images_processed (fold count_call cs (new_stats t))"
    using fold_count_call_nonneg [of "new_stats t" cs] by (simp add: new_stats_def)
qed

lemma run_rate_ok:
  "rate_ok (wf_stats (fst (execute_workflow cfg t_start t_end now session hs hs_text prepared
                             outcome st)))"
  unfolding run_stats
  by (simp add: rate_ok_new rate_ok_failed rate_ok_returned split: agent_outcome.splits)

text \<open>
  Claim C7. While \<open>ended_at\<close> is unset \<^verbatim>\<open>update_completion\<close> changes nothing, so no duration,
  average or success rate is derived. Once it is set and orders plus images processed are
  more than zero, the success rate is that total minus the errors, over the total, times
  100, computed in doubles and so within a relative error of \<open>2\<^sup>-\<^sup>5\<^sup>1\<close> of the exact value. In the
  statistics that a run of \<^verbatim>\<open>execute_workflow\<close> returns, whatever the run met, the derived
  metrics are 0 while \<open>ended_at\<close> is unset, and once it is set the success rate is the value
  above when the total is more than zero and 0 when the total is zero.
\<close>

theorem success_rate_once_ended:
  "(ended_at s = None \<longrightarrow> update_completion s = s) \<and>
   (ended_at s = Some e \<and> total_operations s > 0 \<longrightarrow>
      success_rate (update_completion s) =
        float_mul_int
          (int_truediv (total_operations s - errors_encountered s) (total_operations s)) 100 \<and>
      \<bar>success_rate (update_completion s) - spec_success_rate s\<bar>
        \<le> \<bar>spec_success_rate s\<bar> / 2 ^ 51) \<and>
   (let r = wf_stats (fst (execute_workflow cfg t_start t_end now session hs hs_text prepared
                             outcome st))
    in (ended_at r = None \<longrightarrow>
          total_duration_seconds r = 0 \<and> average_order_time r = 0 \<and>
          average_image_time r = 0 \<and> success_rate r = 0) \<and>
       (ended_at r \<noteq> None \<longrightarrow>
          success_rate r =
            (if total_operations r > 0
             then float_mul_int
                    (int_truediv (total_operations r - errors_encountered r)
                       (total_operations r)) 100
             else 0) \<and>
          \<bar>success_rate r - spec_success_rate r\<bar> \<le> \<bar>spec_success_rate r\<bar> / 2 ^ 51))"
proof -
  have a: "ended_at s = None \<longrightarrow> update_completion s = s"
    by (simp add: update_completion_unset)
  have b: "ended_at s = Some e \<and> total_operations s > 0 \<longrightarrow>
      success_rate (update_completion s) =
        float_mul_int
          (int_truediv (total_operations s - errors_encountered s) (total_operations s)) 100 \<and>
      \<bar>success_rate (update_completion s) - spec_success_rate s\<bar>
        \<le> \<bar>spec_success_rate s\<bar> / 2 ^ 51"
    using update_completion_rate [of s e] success_rate_error [of s] by auto
  from a b run_rate_ok [of cfg t_start t_end now session hs hs_text prepared outcome st]
  show ?thesis
    unfolding rate_ok_def Let_def by blast
qed

lemma run_55:
  "wf_stats (fst (execute_workflow mock_config 10 40 ''t1'' ''orbit_1'' degraded_status ''{}''
                    busy_context (Returned (Some twenty_updates)) fresh_agent)) =
     \<lparr>started_at = 10, ended_at = Some 40, orders_processed = 20, images_processed = 0,
      errors_encountered = 9, phases_completed = [], total_duration_seconds = 30,
      average_order_time = 3 / 2, average_image_time = 0, success_rate = 55 + 1 / 2 ^ 47\<rparr>"
  by code_simp

lemma run_timeout:
  "wf_stats (fst (execute_workflow mock_config 10 40 ''t1'' ''orbit_1'' degraded_status ''{}''
                    busy_context TimedOut fresh_agent)) =
     \<lparr>started_at = 10, ended_at = Some 40, orders_processed = 0, images_processed = 0,
      errors_encountered = 1, phases_completed = [], total_duration_seconds = 30,
      average_order_time = 0, average_image_time = 0, success_rate = 0\<rparr>"
  by code_simp

lemma direct_55:
  "float_mul_int (int_truediv (20 - 9) 20) 100 = 55 + 1 / 2 ^ 47"
  by code_simp

theorem success_rate_once_ended_witness:
  "update_completion ((new_stats 10)\<lparr>orders_processed := 1, images_processed := 2,
       errors_encountered := 1\<rparr>) =
     (new_stats 10)\<lparr>orders_processed := 1, images_processed := 2, errors_encountered := 1\<rparr> \<and>
   success_rate (update_completion ((new_stats 10)\<lparr>ended_at := Some 40,
       orders_processed := 20, errors_encountered := 9\<rparr>)) = 55 + 1 / 2 ^ 47 \<and>
   success_rate (wf_stats (fst (execute_workflow mock_config 10 40 ''t1'' ''orbit_1''
       degraded_status ''{}'' busy_context (Returned (Some twenty_updates)) fresh_agent)))
     = 55 + 1 / 2 ^ 47 \<and>
   success_rate (wf_stats (fst (execute_workflow mock_config 10 40 ''t1'' ''orbit_1''
       degraded_status ''{}'' busy_context TimedOut fresh_agent))) = 0"
  using success_rate_once_ended [where s = "(new_stats 10)\<lparr>orders_processed := 1,
       images_processed := 2, errors_encountered := 1\<rparr>" and e = 0]
    success_rate_once_ended [where s = "(new_stats 10)\<lparr>ended_at := Some 40,
       orders_processed := 20, errors_encountered := 9\<rparr>" and e = 40
       and cfg = mock_config and t_start = 10 and t_end = 40 and now = "''t1''"
       and session = "''orbit_1''" and hs = degraded_status and hs_text = "''{}''"
       and prepared = busy_context and outcome = "Returned (Some twenty_updates)"
       and st = fresh_agent]
    success_rate_once_ended [where s = "new_stats 10" and e = 40
       and cfg = mock_config and t_start = 10 and t_end = 40 and now = "''t1''"
       and session = "''orbit_1''" and hs = degraded_status and hs_text = "''{}''"
       and prepared = busy_context and outcome = TimedOut and st = fresh_agent]
  by (simp add: new_stats_def run_55 run_timeout direct_55 [simplified])

section \<open>Properties of the transactions\<close>

text \<open>
  A transaction reports success exactly when the loop over the queries ends without an
  exception, whatever the calls for BEGIN and COMMIT return; the loop then holds one result
  for each query.
\<close>

lemma transaction_success_iff:
  "success (fst (execute_transaction be mr tid qs tr)) =
     (\<exists>results tr2.
        run_queries be mr 0 qs []
          (snd (execute be mr (Some ''BEGIN'') [] True ''transaction_begin'' tr)) =
        (Inr results, tr2))"
  by (auto simp: execute_transaction_def ToolResult_def Let_def split: prod.splits sum.splits)

lemma run_queries_all_steps:
  "run_queries be mr i qs acc tr = (Inr results, tr') \<Longrightarrow>
     length results = length acc + length qs"
proof (induction qs arbitrary: i acc tr)
  case Nil
  then show ?case by simp
next
  case (Cons qd qs)
  show ?case
  proof (cases "execute be mr (resolve_query qd) (params qd) False ''query'' tr")
    case (Pair out tr1)
    with Cons.prems Cons.IH show ?thesis
      by (cases out) (auto split: if_splits)
  qed
qed

text \<open>
  Claim C1 asks that a transaction report success only if every step and the COMMIT marker
  succeeded. On the backend that refuses COMMIT, the transaction of one insert returns the
  success envelope, although the call for COMMIT made at that point of the run returns a
  failure envelope after its three attempts: \<^verbatim>\<open>execute_transaction\<close> does not look at the
  result of that call.
\<close>

theorem commit_failure_reported_as_success:
  "execute_transaction commit_fails 3 ''tx'' one_insert [] =
     (ToolResult True
        (PList [to_dict (ToolResult True (PList []) None
                  [(''query'', PStr ''INSERT INTO table1 VALUES (1)''), (''row_count'', PInt 0),
                   (''attempts'', PInt 1), (''operation_type'', PStr ''query'')])])
        None [(''transaction_id'', PStr ''tx''), (''queries_executed'', PInt 1)],
      [Invoke (Some ''BEGIN'') ''transaction_begin'', Post (Some ''BEGIN'') [],
       Invoke (Some ''INSERT INTO table1 VALUES (1)'') ''query'',
       Post (Some ''INSERT INTO table1 VALUES (1)'') [],
       Invoke (Some ''COMMIT'') ''transaction_commit'', Post (Some ''COMMIT'') [], Sleep 2,
       Post (Some ''COMMIT'') [], Sleep 4, Post (Some ''COMMIT'') []]) \<and>
   fst (execute commit_fails 3 (Some ''COMMIT'') [] True ''transaction_commit''
          [Invoke (Some ''BEGIN'') ''transaction_begin'', Post (Some ''BEGIN'') [],
           Invoke (Some ''INSERT INTO table1 VALUES (1)'') ''query'',
           Post (Some ''INSERT INTO table1 VALUES (1)'') []]) =
     Inr (ToolResult False PNone (Some ''Database error: 500 - commit refused'')
            [(''query'', PStr ''COMMIT''), (''attempts'', PInt 3),
             (''operation_type'', PStr ''transaction_commit'')])"
  by code_simp

text \<open>
  Claim C2 asks that a transaction of two operations, the first succeeding and the second
  failing, return the failure envelope naming the step and its error, invoke the ROLLBACK
  marker exactly once and invoke no third operation. On the backend and the queries of
  \<^verbatim>\<open>test_transaction_rollback\<close> the envelope is the failure naming query 2 and its error and
  no third query is run, but \<^verbatim>\<open>_execute\<close> is entered for ROLLBACK twice: once where the failed
  step is found, and once more in the \<^verbatim>\<open>except\<close> clause that the exception raised there
  reaches.
\<close>

theorem rollback_invoked_twice:
  "execute_transaction second_fails 3 ''tx'' two_queries [] =
     (ToolResult False PNone (Some ''Query 2 failed: Database error: 400 - Bad Request'')
        [(''transaction_id'', PStr ''tx''), (''queries_attempted'', PInt 2)],
      [Invoke (Some ''BEGIN'') ''transaction_begin'', Post (Some ''BEGIN'') [],
       Invoke (Some ''INSERT INTO table1 VALUES (1)'') ''query'',
       Post (Some ''INSERT INTO table1 VALUES (1)'') [],
       Invoke (Some ''INVALID SQL'') ''query'', Post (Some ''INVALID SQL'') [],
       Invoke (Some ''ROLLBACK'') ''transaction_rollback'', Post (Some ''ROLLBACK'') [],
       Invoke (Some ''ROLLBACK'') ''transaction_rollback'', Post (Some ''ROLLBACK'') []]) \<and>
   invocations ''ROLLBACK'' (snd (execute_transaction second_fails 3 ''tx'' two_queries [])) = 2"
  by code_simp

section \<open>Properties of the tracker statistics and progress\<close>

text \<open>An update that does not name \<open>started_at\<close> leaves it as it was.\<close>

lemma map_of_dict_set:
  "map_of (dict_set k v d) k' = (if k' = k then Some v else map_of d k')"
  by (induction d) auto

lemma map_of_dict_update:
  "k \<notin> fst ` set other \<Longrightarrow> map_of (dict_update d other) k = map_of d k"
  unfolding dict_update_def
  by (induction other arbitrary: d) (auto simp: map_of_dict_set)

lemma update_stats_without_started_at:
  "''started_at'' \<notin> fst ` set updates \<Longrightarrow>
     map_of (workflow_stats (snd (update_stats now updates st))) ''started_at'' =
     map_of (workflow_stats st) ''started_at''"
  by (simp add: update_stats_def Let_def map_of_dict_update)

text \<open>
  Claim C5 asks that the first \<^verbatim>\<open>update_stats\<close> call set \<open>started_at\<close> when it is unset,
  whatever fields the call supplies. On a new tracker, the update of \<^verbatim>\<open>test_update_stats\<close>
  (three counters and no \<open>started_at\<close>) merges the counters and leaves \<open>started_at\<close> at
  \<^verbatim>\<open>None\<close>: the branch that stamps the time is guarded by \<^verbatim>\<open>"started_at" in updates\<close>.
\<close>

theorem started_at_stays_unset:
  "update_stats ''2026-11-03T10:00:00'' test_stats_update tracker_init =
     (Inr (ToolResult True
             (dict_of [(''started_at'', PNone), (''orders_processed'', PInt 5),
                       (''images_processed'', PInt 20), (''errors'', PInt 1)]) None []),
      tracker_init\<lparr>workflow_stats :=
        [(''started_at'', PNone), (''orders_processed'', PInt 5),
         (''images_processed'', PInt 20), (''errors'', PInt 1)]\<rparr>) \<and>
   map_of (workflow_stats (snd (tracker_execute ''2026-11-03T10:00:00'' ''2026-11-03T10:00:00''
       ''update_stats'' None None None (Some test_stats_update) tracker_init))) ''started_at''
     = Some PNone"
  by code_simp

text \<open>The counts the loop over the todos builds are the numbers of todos of each status.\<close>

lemma map_of_bump:
  "map_of (bump k kvs) k' =
     (if k' = k then Some (case map_of kvs k of None \<Rightarrow> 1 | Some n \<Rightarrow> n + 1) else map_of kvs k')"
  by (induction kvs) auto

lemma fold_bump_count:
  "map_of (fold (\<lambda>t counts. bump (status t) counts) ts acc) k =
     (case map_of acc k of
        None \<Rightarrow> (if filter (\<lambda>t. status t = k) ts = [] then None
                 else Some (length (filter (\<lambda>t. status t = k) ts)))
      | Some n \<Rightarrow> Some (n + length (filter (\<lambda>t. status t = k) ts)))"
proof (induction ts arbitrary: acc)
  case Nil
  then show ?case by (simp split: option.splits)
next
  case (Cons t ts)
  show ?case
    by (simp add: Cons.IH map_of_bump split: option.splits)
qed

lemma count_get_counts:
  "count_get (get_status_counts ts) k = length (filter (\<lambda>t. status t = Some k) ts)"
  by (simp add: count_get_def get_status_counts_def fold_bump_count split: option.splits)

lemma reported_percent_eq:
  "reported_percent st =
     Some (if todos st = [] then 0
           else py_round2 (float_mul_int
                  (int_truediv (int (completed_todos st)) (int (length (todos st)))) 100))"
  by (simp add: reported_percent_def get_progress_def Let_def ToolResult_def dict_of_def
      percent_complete_def count_get_counts)

text \<open>Rounding a percentage between 0 and 100 to two places, in doubles.\<close>

lemma py_round2_percent:
  assumes "0 \<le> q" and "q \<le> 1"
  shows "\<bar>of_int (round_half_even (float_mul_int (to_double q) 100 * 100)) / 100 - q * 100\<bar>
           \<le> 1 / 200 + 1 / 10 ^ 12"
    and "\<bar>py_round2 (float_mul_int (to_double q) 100) - q * 100\<bar> \<le> 1 / 200 + 1 / 10 ^ 12"
proof -
  define x2 where "x2 = float_mul_int (to_double q) 100"
  define k where "k = round_half_even (x2 * 100)"
  have e2: "\<bar>x2 - q * 100\<bar> \<le> \<bar>q\<bar> * 100 / 2 ^ 51"
    unfolding x2_def by (rule ratio_times_100_error)
  from assms have "\<bar>q\<bar> * 100 / 2 ^ 51 \<le> 100 / 2 ^ 51"
    by simp
  with e2 have e2': "\<bar>x2 - q * 100\<bar> \<le> 100 / 2 ^ 51" by linarith
  have "\<bar>of_int k - x2 * 100\<bar> \<le> 1 / 2"
    unfolding k_def by (rule round_half_even_near)
  then have ek: "\<bar>of_int k / 100 - x2\<bar> \<le> 1 / 200"
    by (simp add: abs_if field_simps split: if_splits)
  have ep: "\<bar>to_double (of_int k / 100) - of_int k / 100\<bar> \<le> \<bar>of_int k / 100\<bar> / 2 ^ 53"
    by (rule to_double_error)
  have kb: "\<bar>(of_int k :: rat) / 100\<bar> \<le> 101"
    using ek e2' assms by (simp add: abs_if split: if_splits) 
  from kb have "\<bar>(of_int k :: rat) / 100\<bar> / 2 ^ 53 \<le> 101 / 2 ^ 53"
    by (rule divide_right_mono) simp
  with ep have ep': "\<bar>to_double (of_int k / 100) - of_int k / 100\<bar> \<le> 101 / 2 ^ 53"
    by linarith
  show "\<bar>of_int (round_half_even (float_mul_int (to_double q) 100 * 100)) / 100 - q * 100\<bar>
           \<le> 1 / 200 + 1 / 10 ^ 12"
    using ek e2' unfolding k_def x2_def by (simp add: abs_if split: if_splits)
  show "\<bar>py_round2 (float_mul_int (to_double q) 100) - q * 100\<bar> \<le> 1 / 200 + 1 / 10 ^ 12"
    using ek e2' ep' unfolding py_round2_def k_def x2_def by (simp add: abs_if split: if_splits)
qed

lemma completed_le: "completed_todos st \<le> length (todos st)"
  by simp

text \<open>
  Claim C8, amended. For every ledger, the percentage \<^verbatim>\<open>get_progress\<close> reports is
  \<^verbatim>\<open>round(completed / total * 100, 2)\<close> in double arithmetic: it is the double nearest to a
  number of hundredths, and that number and the reported value are within 0.005 (and the
  rounding error of the division and the product, below \<open>10\<^sup>-\<^sup>1\<^sup>2\<close>) of the number of completed
  todos over the number of todos times 100. It is 0 when there is no todo.
\<close>

theorem percent_complete_rounded:
  "reported_percent st =
     Some (if todos st = [] then 0
           else py_round2 (float_mul_int
                  (int_truediv (int (completed_todos st)) (int (length (todos st)))) 100)) \<and>
   (\<exists>p k. reported_percent st = Some p \<and> p = to_double (of_int k / 100) \<and>
      \<bar>of_int k / 100 - spec_percent st\<bar> \<le> 1 / 200 + 1 / 10 ^ 12 \<and>
      \<bar>p - spec_percent st\<bar> \<le> 1 / 200 + 1 / 10 ^ 12) \<and>
   (todos st = [] \<longrightarrow> reported_percent st = Some 0)"
proof -
  have a: "reported_percent st =
     Some (if todos st = [] then 0
           else py_round2 (float_mul_int
                  (int_truediv (int (completed_todos st)) (int (length (todos st)))) 100))"
    by (rule reported_percent_eq)
  have c: "todos st = [] \<longrightarrow> reported_percent st = Some 0"
    by (simp add: reported_percent_eq)
  have b: "\<exists>p k. reported_percent st = Some p \<and> p = to_double (of_int k / 100) \<and>
      \<bar>of_int k / 100 - spec_percent st\<bar> \<le> 1 / 200 + 1 / 10 ^ 12 \<and>
      \<bar>p - spec_percent st\<bar> \<le> 1 / 200 + 1 / 10 ^ 12"
  proof (cases "todos st = []")
    case True
    have "to_double (of_int 0 / 100) = 0" by (simp add: to_double_def)
    with True show ?thesis
      by (intro exI [of _ 0]) (simp add: reported_percent_eq spec_percent_def)
  next
    case False
    define q :: rat where "q = of_nat (completed_todos st) / of_nat (length (todos st))"
    from False have len: "0 < length (todos st)" by simp
    have q0: "0 \<le> q" by (simp add: q_def)
    have q1: "q \<le> 1"
      using len completed_le [of st] by (simp add: q_def)
    have sp: "spec_percent st = q * 100"
      using False by (simp add: spec_percent_def q_def)
    have it: "int_truediv (int (completed_todos st)) (int (length (todos st))) = to_double q"
      by (simp add: int_truediv_def q_def)
    let ?k = "round_half_even (float_mul_int (to_double q) 100 * 100)"
    have "reported_percent st = Some (py_round2 (float_mul_int (to_double q) 100))"
      using False by (simp only: reported_percent_eq it if_False)
    moreover have "py_round2 (float_mul_int (to_double q) 100) = to_double (of_int ?k / 100)"
      by (simp add: py_round2_def)
    ultimately show ?thesis
      using py_round2_percent [OF q0 q1] unfolding sp by blast
  qed
  from a b c show ?thesis by blast
qed

lemma percent_three: "reported_percent three_todos = Some (to_double (3333 / 100))"
  by code_simp

lemma spec_three: "spec_percent three_todos = 100 / 3"
  by code_simp

lemma double_3333: "to_double (3333 / 100) \<noteq> 100 / 3"
  by code_simp

lemma percent_four: "reported_percent four_todos = Some 50"
  by code_simp

lemma percent_23_of_160: "reported_percent ledger_23_of_160 = Some (to_double (1437 / 100))"
  by code_simp

lemma percent_1_of_32: "reported_percent ledger_1_of_32 = Some (to_double (312 / 100))"
  by code_simp

lemma spec_23_of_160: "spec_percent ledger_23_of_160 = 14375 / 1000"
  by code_simp

text \<open>
  Claim C8 as stated fails: with one todo of three completed the specification's value is
  \<open>100 / 3\<close> and \<^verbatim>\<open>get_progress\<close> reports the double \<open>33.33\<close>.
\<close>

theorem percent_complete_counterexample:
  "reported_percent three_todos = Some (to_double (3333 / 100)) \<and>
   spec_percent three_todos = 100 / 3 \<and>
   reported_percent three_todos \<noteq> Some (spec_percent three_todos)"
proof (intro conjI)
  show "reported_percent three_todos = Some (to_double (3333 / 100))"
    by (rule percent_three)
  show "spec_percent three_todos = 100 / 3"
    by (rule spec_three)
  show "reported_percent three_todos \<noteq> Some (spec_percent three_todos)"
    unfolding percent_three spec_three using double_3333 by blast
qed

theorem percent_complete_rounded_witness:
  "reported_percent four_todos = Some 50 \<and>
   reported_percent three_todos = Some (to_double (3333 / 100)) \<and>
   reported_percent ledger_23_of_160 = Some (to_double (1437 / 100)) \<and>
   reported_percent ledger_1_of_32 = Some (to_double (312 / 100)) \<and>
   reported_percent tracker_init = Some 0"
proof -
  have "todos tracker_init = []"
    by (simp add: tracker_init_def)
  with percent_complete_rounded [of tracker_init] have "reported_percent tracker_init = Some 0"
    by blast
  then show ?thesis
    by (simp add: percent_four percent_three percent_23_of_160 percent_1_of_32)
qed

section \<open>The envelope invariant\<close>
























end
